theory Spec2Isabelle
  imports Complex_Main
begin

section \<open>Strings\<close>

text \<open>
  A Python string is modelled as a list of 8-bit characters: the strings whose code points
  lie below 256.  The character classes below are those of Python on that range.
  Character codes are read as integers.
\<close>

definition code :: "char \<Rightarrow> int" where
  "code c = of_char c"

text \<open>\<^verbatim>\<open>str.lower\<close>: A-Z and the upper-case letters of Latin-1 move up by 32.\<close>

definition lower_char :: "char \<Rightarrow> char" where
  "lower_char c =
     (let n = code c in
      if (65 \<le> n \<and> n \<le> 90) \<or> (192 \<le> n \<and> n \<le> 222 \<and> n \<noteq> 215)
      then char_of (n + 32) else c)"

definition lower :: "string \<Rightarrow> string" where
  "lower s = map lower_char s"

text \<open>
  \<^verbatim>\<open>str.upper\<close> and \<^verbatim>\<open>str.title\<close> are only applied to ASCII text (a hexadecimal digest,
  the names of a fixed table), so only a-z is moved.
\<close>

definition upper_char :: "char \<Rightarrow> char" where
  "upper_char c = (let n = code c in if 97 \<le> n \<and> n \<le> 122 then char_of (n - 32) else c)"

definition upper :: "string \<Rightarrow> string" where
  "upper s = map upper_char s"

definition is_alpha :: "char \<Rightarrow> bool" where
  "is_alpha c = (let n = code c in (65 \<le> n \<and> n \<le> 90) \<or> (97 \<le> n \<and> n \<le> 122))"

fun title_from :: "bool \<Rightarrow> string \<Rightarrow> string" where
  "title_from inword [] = []"
| "title_from inword (c # cs) =
     (if is_alpha c
      then (if inword then lower_char c else upper_char c) # title_from True cs
      else c # title_from False cs)"

definition title :: "string \<Rightarrow> string" where
  "title s = title_from False s"

text \<open>The classes \<^verbatim>\<open>\d\<close>, \<^verbatim>\<open>\s\<close> (also the characters \<^verbatim>\<open>str.strip\<close> removes) and \<^verbatim>\<open>\w\<close>.\<close>

definition is_digit :: "char \<Rightarrow> bool" where
  "is_digit c = (let n = code c in 48 \<le> n \<and> n \<le> 57)"

definition is_space :: "char \<Rightarrow> bool" where
  "is_space c =
     (let n = code c in (9 \<le> n \<and> n \<le> 13) \<or> (28 \<le> n \<and> n \<le> 32) \<or> n = 133 \<or> n = 160)"

definition is_word :: "char \<Rightarrow> bool" where
  "is_word c =
     (let n = code c in
        (48 \<le> n \<and> n \<le> 57) \<or> (65 \<le> n \<and> n \<le> 90) \<or> n = 95 \<or> (97 \<le> n \<and> n \<le> 122)
      \<or> n = 170 \<or> n = 178 \<or> n = 179 \<or> n = 181 \<or> n = 185 \<or> n = 186
      \<or> (188 \<le> n \<and> n \<le> 190) \<or> (192 \<le> n \<and> n \<le> 214) \<or> (216 \<le> n \<and> n \<le> 246)
      \<or> 248 \<le> n)"

definition strip :: "string \<Rightarrow> string" where
  "strip s = rev (dropWhile is_space (rev (dropWhile is_space s)))"

text \<open>\<^verbatim>\<open>k in s\<close> on strings: \<open>k\<close> occurs in \<open>s\<close> as a contiguous piece.\<close>

fun starts_with :: "string \<Rightarrow> string \<Rightarrow> bool" where
  "starts_with [] s = True"
| "starts_with (k # ks) [] = False"
| "starts_with (k # ks) (c # cs) = (k = c \<and> starts_with ks cs)"

fun contains :: "string \<Rightarrow> string \<Rightarrow> bool" where
  "contains k [] = (k = [])"
| "contains k (c # cs) = (starts_with k (c # cs) \<or> contains k cs)"

text \<open>\<^verbatim>\<open>any(k in s for k in ks)\<close>.\<close>

definition any_in :: "string list \<Rightarrow> string \<Rightarrow> bool" where
  "any_in ks s = list_ex (\<lambda>k. contains k s) ks"

text \<open>\<^verbatim>\<open>text.split('\n')\<close>: the empty text has one (empty) line.\<close>

fun split_nl :: "string \<Rightarrow> string list" where
  "split_nl [] = [[]]"
| "split_nl (c # cs) =
     (if c = CHR 0x0A then [] # split_nl cs
      else (case split_nl cs of l # ls \<Rightarrow> (c # l) # ls | [] \<Rightarrow> [[c]]))"

text \<open>\<^verbatim>\<open>sep.join(xs)\<close>.\<close>

fun join :: "string \<Rightarrow> string list \<Rightarrow> string" where
  "join sep [] = []"
| "join sep [x] = x"
| "join sep (x # y # ys) = x @ sep @ join sep (y # ys)"

text \<open>\<^verbatim>\<open>int(s)\<close> on a string of decimal digits, and \<^verbatim>\<open>str(n)\<close> on an integer.\<close>

definition digit_val :: "char \<Rightarrow> int" where
  "digit_val c = code c - 48"

definition int_of_str :: "string \<Rightarrow> int" where
  "int_of_str s = foldl (\<lambda>a c. 10 * a + digit_val c) 0 s"

fun digits_of :: "nat \<Rightarrow> nat \<Rightarrow> string" where
  "digits_of 0 n = []"
| "digits_of (Suc fuel) n =
     (if n < 10 then [char_of (48 + int n)]
      else digits_of fuel (n div 10) @ [char_of (48 + int (n mod 10))])"

definition str_of_int :: "int \<Rightarrow> string" where
  "str_of_int i =
     (if i < 0 then CHR ''-'' # digits_of (Suc (nat (- i))) (nat (- i))
      else digits_of (Suc (nat i)) (nat i))"

text \<open>
  \<^verbatim>\<open>str.isdigit\<close>: on this range the decimal digits and the superscripts one, two, three.
\<close>

definition isdigit :: "string \<Rightarrow> bool" where
  "isdigit s = (s \<noteq> [] \<and> list_all (\<lambda>c. is_digit c \<or> code c = 178 \<or> code c = 179 \<or> code c = 185) s)"

section \<open>Regular expressions\<close>

text \<open>
  The patterns of the source are written in a small regular-expression language and run by a
  backtracking matcher with the priorities of Python's \<^verbatim>\<open>re\<close>: the first alternative first,
  greedy repetition longest first, lazy repetition shortest first.  \<open>Grp\<close> marks group 1 of
  a pattern (the only group whose text the source reads); \<open>Look\<close> is a lookahead,
  \<open>WordB\<close> is \<^verbatim>\<open>\b\<close>, \<open>Bol\<close> is \<^verbatim>\<open>^\<close> and \<open>Eol\<close> is \<^verbatim>\<open>$\<close>.

  A matching state holds the character before the position, the rest of the input and the
  text of group 1.  A repetition gets as many rounds as the rest of the input has characters:
  every repeated pattern of the source consumes at least one character per round.
\<close>

datatype rx =
    Cls "char \<Rightarrow> bool"
  | Eps
  | Seq rx rx
  | Alt rx rx
  | Opt rx
  | Star rx
  | LazyStar rx
  | Grp rx
  | Look rx
  | WordB
  | Bol
  | Eol

type_synonym mstate = "char option \<times> string \<times> string option"

definition prev_of :: "mstate \<Rightarrow> char option" where "prev_of s = fst s"
definition rest_of :: "mstate \<Rightarrow> string" where "rest_of s = fst (snd s)"
definition group_of :: "mstate \<Rightarrow> string option" where "group_of s = snd (snd s)"

fun star_k ::
  "((mstate \<Rightarrow> mstate option) \<Rightarrow> mstate \<Rightarrow> mstate option) \<Rightarrow> nat \<Rightarrow>
   (mstate \<Rightarrow> mstate option) \<Rightarrow> mstate \<Rightarrow> mstate option" where
  "star_k f 0 k s = k s"
| "star_k f (Suc n) k s = (case f (star_k f n k) s of Some e \<Rightarrow> Some e | None \<Rightarrow> k s)"

fun lazy_k ::
  "((mstate \<Rightarrow> mstate option) \<Rightarrow> mstate \<Rightarrow> mstate option) \<Rightarrow> nat \<Rightarrow>
   (mstate \<Rightarrow> mstate option) \<Rightarrow> mstate \<Rightarrow> mstate option" where
  "lazy_k f 0 k s = k s"
| "lazy_k f (Suc n) k s = (case k s of Some e \<Rightarrow> Some e | None \<Rightarrow> f (lazy_k f n k) s)"

definition at_boundary :: "mstate \<Rightarrow> bool" where
  "at_boundary s =
     ((case prev_of s of None \<Rightarrow> False | Some c \<Rightarrow> is_word c)
      \<noteq> (case rest_of s of [] \<Rightarrow> False | c # cs \<Rightarrow> is_word c))"

definition consumed :: "string \<Rightarrow> mstate \<Rightarrow> string" where
  "consumed s e = take (length s - length (rest_of e)) s"

text \<open>\<open>mk r k s\<close>: match \<open>r\<close> at state \<open>s\<close>, then go on with \<open>k\<close>; the first success wins.\<close>

primrec mk :: "rx \<Rightarrow> (mstate \<Rightarrow> mstate option) \<Rightarrow> mstate \<Rightarrow> mstate option" where
  "mk (Cls p) k s =
     (case rest_of s of
        [] \<Rightarrow> None
      | c # cs \<Rightarrow> if p c then k (Some c, cs, group_of s) else None)"
| "mk Eps k s = k s"
| "mk (Seq a b) k s = mk a (mk b k) s"
| "mk (Alt a b) k s = (case mk a k s of Some e \<Rightarrow> Some e | None \<Rightarrow> mk b k s)"
| "mk (Opt a) k s = (case mk a k s of Some e \<Rightarrow> Some e | None \<Rightarrow> k s)"
| "mk (Star a) k s = star_k (mk a) (length (rest_of s)) k s"
| "mk (LazyStar a) k s = lazy_k (mk a) (length (rest_of s)) k s"
| "mk (Grp a) k s = mk a (\<lambda>e. k (prev_of e, rest_of e, Some (consumed (rest_of s) e))) s"
| "mk (Look a) k s = (case mk a Some s of None \<Rightarrow> None | Some e \<Rightarrow> k s)"
| "mk WordB k s = (if at_boundary s then k s else None)"
| "mk Bol k s = (if prev_of s = None then k s else None)"
| "mk Eol k s = (if rest_of s = [] \<or> rest_of s = [CHR 0x0A] then k s else None)"

text \<open>Building blocks: literals, case-insensitive literals, classes, repetition.\<close>

definition lit :: "char \<Rightarrow> rx" where "lit c = Cls (\<lambda>x. x = c)"
definition liti :: "char \<Rightarrow> rx" where "liti c = Cls (\<lambda>x. lower_char x = lower_char c)"
definition seqs :: "rx list \<Rightarrow> rx" where "seqs rs = foldr Seq rs Eps"
definition alts :: "rx list \<Rightarrow> rx" where "alts rs = foldr Alt (butlast rs) (last rs)"
definition str :: "string \<Rightarrow> rx" where "str s = seqs (map lit s)"
definition stri :: "string \<Rightarrow> rx" where "stri s = seqs (map liti s)"
definition digit :: rx where "digit = Cls is_digit"
definition space :: rx where "space = Cls is_space"
definition word :: rx where "word = Cls is_word"
definition dot :: rx where "dot = Cls (\<lambda>c. c \<noteq> CHR 0x0A)"
definition dot_all :: rx where "dot_all = Cls (\<lambda>c. True)"
definition Plus :: "rx \<Rightarrow> rx" where "Plus a = Seq a (Star a)"
definition LazyPlus :: "rx \<Rightarrow> rx" where "LazyPlus a = Seq a (LazyStar a)"

text \<open>\<open>reps a lo hi\<close> is \<^verbatim>\<open>a{lo,hi}\<close>, greedy.\<close>

fun reps :: "rx \<Rightarrow> nat \<Rightarrow> nat \<Rightarrow> rx" where
  "reps a (Suc lo) hi = Seq a (reps a lo (hi - 1))"
| "reps a 0 (Suc hi) = Opt (Seq a (reps a 0 hi))"
| "reps a 0 0 = Eps"

text \<open>
  \<^verbatim>\<open>re.search\<close>: the leftmost position where the pattern matches; the result is the text of
  the match and of group 1.
\<close>

fun search_from :: "rx \<Rightarrow> char option \<Rightarrow> string \<Rightarrow> (string \<times> string option) option" where
  "search_from r pc [] =
     (case mk r Some (pc, [], None) of
        Some e \<Rightarrow> Some ([], group_of e)
      | None \<Rightarrow> None)"
| "search_from r pc (c # cs) =
     (case mk r Some (pc, c # cs, None) of
        Some e \<Rightarrow> Some (consumed (c # cs) e, group_of e)
      | None \<Rightarrow> search_from r (Some c) cs)"

definition re_search :: "rx \<Rightarrow> string \<Rightarrow> (string \<times> string option) option" where
  "re_search r s = search_from r None s"

definition re_found :: "rx \<Rightarrow> string \<Rightarrow> bool" where
  "re_found r s = (re_search r s \<noteq> None)"

text \<open>
  \<^verbatim>\<open>re.findall\<close> for patterns that match no empty text: the matches from left to right, none
  overlapping; \<open>k\<close> counts the characters of the last match still to be skipped.
\<close>

fun findall_from :: "rx \<Rightarrow> nat \<Rightarrow> char option \<Rightarrow> string \<Rightarrow> (string \<times> string option) list" where
  "findall_from r k pc [] = []"
| "findall_from r k pc (c # cs) =
     (if 0 < k then findall_from r (k - 1) (Some c) cs
      else case mk r Some (pc, c # cs, None) of
             None \<Rightarrow> findall_from r 0 (Some c) cs
           | Some e \<Rightarrow>
               (consumed (c # cs) e, group_of e)
                 # findall_from r (length (consumed (c # cs) e) - 1) (Some c) cs)"

definition re_findall :: "rx \<Rightarrow> string \<Rightarrow> (string \<times> string option) list" where
  "re_findall r s = findall_from r 0 None s"

section \<open>The resume analyzer: dates and positions\<close>

text \<open>
  \<^verbatim>\<open>_extract_dates\<close>.  The four patterns, tried in order, all case-insensitive; the dash class
  of the source also holds the en dash, which lies outside the modelled range.
\<close>

definition dash :: rx where "dash = lit CHR ''-''"

definition yr20 :: rx where
  "yr20 = seqs [lit CHR ''2'', lit CHR ''0'', digit, digit]"

definition end_token :: rx where
  "end_token = alts [yr20, stri ''Present'', stri ''Current'', stri ''Now'']"

definition month :: rx where
  "month = alts (map stri [''Jan'', ''Feb'', ''Mar'', ''Apr'', ''May'', ''Jun'',
                          ''Jul'', ''Aug'', ''Sep'', ''Oct'', ''Nov'', ''Dec''])"

definition letter_i :: rx where
  "letter_i = Cls (\<lambda>c. let n = code (lower_char c) in 97 \<le> n \<and> n \<le> 122)"

definition date_patterns :: "rx list" where
  "date_patterns =
     [seqs [yr20, dash, Star space, end_token],
      seqs [yr20, Star space, dash, Star space, end_token],
      alts [seqs [month, Star letter_i, Star space, digit, digit, digit, digit, dash, Star space,
                  month, Star letter_i, Star space, digit, digit, digit, digit],
            stri ''Present'', stri ''Current'', stri ''Now''],
      seqs [WordB, Alt (str ''19'') (str ''20''), digit, digit, WordB]]"

fun first_match :: "rx list \<Rightarrow> string \<Rightarrow> string option" where
  "first_match [] s = None"
| "first_match (r # rs) s =
     (case re_search r s of Some mt \<Rightarrow> Some (fst mt) | None \<Rightarrow> first_match rs s)"

definition extract_dates :: "string \<Rightarrow> string" where
  "extract_dates text = (case first_match date_patterns text of Some d \<Rightarrow> d | None \<Rightarrow> [])"

text \<open>
  \<^verbatim>\<open>_calculate_position_duration\<close>.  The year tokens are the matches of \<^verbatim>\<open>20\d{2}|19\d{2}\<close>;
  \<open>now_year\<close> is \<^verbatim>\<open>datetime.now().year\<close>.  The result is an integer (the source returns the
  float \<^verbatim>\<open>0.0\<close> in the last branch, the same number).
\<close>

definition year_rx :: rx where
  "year_rx = Alt (seqs [lit CHR ''2'', lit CHR ''0'', digit, digit])
                 (seqs [lit CHR ''1'', lit CHR ''9'', digit, digit])"

definition year_matches :: "string \<Rightarrow> string list" where
  "year_matches dates = map fst (re_findall year_rx dates)"

definition calculate_position_duration :: "int \<Rightarrow> string \<Rightarrow> int" where
  "calculate_position_duration now_year dates =
     (let ys = year_matches dates in
      if 2 \<le> length ys then
        (let start_year = int_of_str (ys ! 0);
             end_year = (if isdigit (ys ! 1) then int_of_str (ys ! 1) else now_year)
         in end_year - start_year)
      else 0)"

text \<open>\<^verbatim>\<open>_extract_position_title\<close> and \<^verbatim>\<open>_extract_company_name\<close>.\<close>

definition position_patterns :: "rx list" where
  "position_patterns =
     [seqs [Bol, Grp (LazyStar dot), Look (seqs [Star space, alts [stri ''at'', lit CHR '','', digit]])],
      seqs [alts [stri ''position'', stri ''role'', stri ''title''],
            Plus (Cls (\<lambda>c. c = CHR '':'' \<or> is_space c)), Grp (LazyStar dot), Look (Alt space Eol)],
      seqs [Bol, Grp (LazyStar dot), Look (seqs [Star space, lit CHR ''-'', Star space])]]"

definition not_comma :: rx where "not_comma = Cls (\<lambda>c. c \<noteq> CHR '','')"

definition company_patterns :: "rx list" where
  "company_patterns =
     [seqs [stri ''at'', Plus space, Grp (LazyPlus not_comma), Look (Alt space Eol)],
      seqs [lit CHR '','', Plus space, Grp (LazyPlus not_comma), Look (Alt space Eol)],
      seqs [lit CHR ''-'', Plus space, Grp (LazyPlus not_comma), Look (Alt space Eol)],
      seqs [stri ''company'', Plus (Cls (\<lambda>c. c = CHR '':'' \<or> is_space c)), Grp (LazyStar dot),
            Look (Alt space Eol)]]"

text \<open>
  Both loops return the stripped group 1 of the first pattern whose match has a length
  strictly between the bounds, and the empty string when no pattern gives one.
\<close>

fun first_group_between :: "nat \<Rightarrow> nat \<Rightarrow> rx list \<Rightarrow> string \<Rightarrow> string" where
  "first_group_between lo hi [] s = []"
| "first_group_between lo hi (r # rs) s =
     (case re_search r s of
        None \<Rightarrow> first_group_between lo hi rs s
      | Some mt \<Rightarrow>
          (let t = strip (case snd mt of Some g \<Rightarrow> g | None \<Rightarrow> [])
           in if lo < length t \<and> length t < hi then t else first_group_between lo hi rs s))"

definition extract_position_title :: "string \<Rightarrow> string" where
  "extract_position_title text = first_group_between 3 100 position_patterns text"

definition extract_company_name :: "string \<Rightarrow> string" where
  "extract_company_name text = first_group_between 2 100 company_patterns text"

text \<open>\<^verbatim>\<open>_extract_position_info\<close>: a line without a date range gives no position.\<close>

record position_info =
  p_position :: string
  p_company :: string
  p_dates :: string
  p_duration_years :: int
  p_description :: string

definition extract_position_info :: "int \<Rightarrow> string \<Rightarrow> position_info option" where
  "extract_position_info now_year text =
     (let dates = extract_dates text in
      if dates = [] then None
      else Some \<lparr> p_position = extract_position_title text,
                  p_company = extract_company_name text,
                  p_dates = dates,
                  p_duration_years = calculate_position_duration now_year dates,
                  p_description = text \<rparr>)"

section \<open>The resume analyzer: data\<close>

text \<open>
  The dictionaries the analyzer builds are records; a dictionary whose keys come from a table
  and whose order matters is an association list.  Floats are exact rationals.
\<close>

record qual_info =
  q_text :: string
  q_level :: string
  q_institution :: string
  q_field :: string
  q_dates :: string
  q_confidence :: rat

record qualifications =
  highest_qualification :: string
  qualification_level :: string
  all_qualifications :: "qual_info list"
  institutions :: "string list"
  fields_of_study :: "string list"
  qualification_details :: "qual_info list"

record skill_entry =
  s_skill :: string
  s_confidence :: rat
  s_frequency :: nat
  s_category :: string

record top_skill =
  t_skill :: string
  t_category :: string
  t_score :: rat
  t_frequency :: nat
  t_confidence :: rat

record skills_data =
  skills_by_category :: "(string \<times> skill_entry list) list"
  total_skills :: nat
  skill_diversity :: nat
  total_skill_occurrences :: nat
  top_skills :: "top_skill list"
  skill_categories_present :: "string list"

record experience_data =
  total_experience_years :: int
  experience_level :: string
  industry_sectors :: "string list"
  key_achievements :: "string list"
  career_progression :: "position_info list"
  companies_worked :: "string list"
  positions_held :: "string list"
  career_gaps :: nat
  promotion_trajectory :: string

record award_entry =
  a_text :: string
  a_confidence :: rat
  a_type :: string

record awards_data =
  awards :: "award_entry list"
  certifications :: "award_entry list"
  honors :: "award_entry list"
  publications :: "award_entry list"
  patents :: "award_entry list"

text \<open>
  \<^verbatim>\<open>list(set(xs))\<close>: the elements of \<open>xs\<close>, each once, in the iteration order of the
  interpreter's hash set.  For strings that order depends on the hash seed of the process, so
  it is a parameter \<open>so\<close> of every function that turns a set into a list; the functions
  below never rely on more than \<open>valid_order so\<close>.
\<close>

definition valid_order :: "(string list \<Rightarrow> string list) \<Rightarrow> bool" where
  "valid_order so = (\<forall>xs. set (so xs) = set xs \<and> distinct (so xs))"

section \<open>The resume analyzer: tables\<close>

definition skill_keywords :: "(string \<times> string list) list" where
  "skill_keywords =
   [(''programming_languages'',
      [''python'', ''java'', ''javascript'', ''typescript'', ''c++'', ''c#'', ''go'',
       ''rust'', ''swift'', ''kotlin'', ''php'', ''ruby'', ''scala'', ''r'', ''matlab'',
       ''perl'', ''html'', ''css'', ''sass'', ''less'', ''sql'', ''pl/sql'', ''bash'',
       ''shell'', ''powershell'', ''dart'', ''assembly'', ''fortran'', ''cobol'',
       ''visual basic'', ''vba'']),
    (''web_development'',
      [''django'', ''flask'', ''fastapi'', ''spring'', ''express'', ''react'', ''angular'',
       ''vue'', ''svelte'', ''laravel'', ''ruby on rails'', ''asp.net'', ''node.js'',
       ''next.js'', ''nuxt.js'', ''jquery'', ''bootstrap'', ''tailwind'', ''webpack'',
       ''babel'', ''npm'', ''yarn'', ''graphql'', ''rest api'', ''soap'', ''json'',
       ''xml'', ''ajax'', ''web services'', ''microservices'', ''api development'']),
    (''mobile_development'',
      [''android'', ''ios'', ''react native'', ''flutter'', ''xamarin'', ''ionic'',
       ''swiftui'', ''kotlin multiplatform'', ''mobile app development'',
       ''cross-platform development'', ''android studio'', ''xcode'']),
    (''databases'',
      [''mysql'', ''postgresql'', ''mongodb'', ''redis'', ''sqlite'', ''oracle'',
       ''sql server'', ''cassandra'', ''dynamodb'', ''elasticsearch'', ''firebase'',
       ''cosmosdb'', ''mariadb'', ''db2'', ''sqlite'', ''hbase'', ''neo4j'', ''arangodb'',
       ''couchbase'', ''rethinkdb'', ''database design'', ''database management'']),
    (''cloud_platforms'',
      [''aws'', ''azure'', ''google cloud'', ''gcp'', ''docker'', ''kubernetes'',
       ''terraform'', ''ansible'', ''jenkins'', ''gitlab'', ''github actions'', ''heroku'',
       ''digital ocean'', ''linode'', ''vultr'', ''ibm cloud'', ''oracle cloud'',
       ''alibaba cloud'', ''openshift'', ''cloudformation'', ''cloud computing'']),
    (''data_science_ai'',
      [''machine learning'', ''deep learning'', ''tensorflow'', ''pytorch'', ''keras'',
       ''scikit-learn'', ''pandas'', ''numpy'', ''matplotlib'', ''seaborn'', ''plotly'',
       ''tableau'', ''power bi'', ''qlik'', ''data analysis'', ''data visualization'',
       ''statistical analysis'', ''natural language processing'', ''computer vision'',
       ''neural networks'', ''reinforcement learning'', ''big data'', ''hadoop'',
       ''spark'', ''data mining'', ''predictive modeling'', ''artificial intelligence'',
       ''nlp'', ''computer vision'', ''data engineering'', ''etl'', ''data warehousing'',
       ''business intelligence'']),
    (''cybersecurity'',
      [''network security'', ''information security'', ''cyber security'',
       ''penetration testing'', ''ethical hacking'', ''vulnerability assessment'',
       ''siem'', ''soc'', ''firewall'', ''vpn'', ''encryption'', ''cryptography'',
       ''incident response'', ''threat intelligence'', ''risk assessment'', ''compliance'',
       ''gdpr'', ''hipaa'', ''pci dss'', ''iso 27001'', ''nist'', ''owasp'',
       ''security audit'', ''digital forensics'']),
    (''devops'',
      [''ci/cd'', ''continuous integration'', ''continuous deployment'', ''jenkins'',
       ''gitlab ci'', ''github actions'', ''ansible'', ''puppet'', ''chef'', ''docker'',
       ''kubernetes'', ''helm'', ''terraform'', ''infrastructure as code'', ''monitoring'',
       ''logging'', ''prometheus'', ''grafana'', ''elk stack'', ''splunk'']),
    (''project_management'',
      [''project management'', ''agile'', ''scrum'', ''kanban'', ''waterfall'',
       ''prince2'', ''pmp'', ''pmbok'', ''jira'', ''trello'', ''asana'', ''basecamp'',
       ''risk management'', ''stakeholder management'', ''budget management'',
       ''resource allocation'', ''project planning'', ''gantt chart'', ''critical path'',
       ''ms project'', ''smartsheet'']),
    (''business_analysis'',
      [''business analysis'', ''requirements gathering'', ''user stories'', ''use cases'',
       ''process modeling'', ''bpmn'', ''uml'', ''swot analysis'', ''gap analysis'',
       ''cost-benefit analysis'', ''roi analysis'', ''kpi tracking'', ''metrics'',
       ''dashboard creation'', ''business intelligence'', ''process improvement'']),
    (''finance_accounting'',
      [''financial analysis'', ''accounting'', ''bookkeeping'', ''financial modeling'',
       ''budgeting'', ''forecasting'', ''quickbooks'', ''xero'', ''sage'', ''ifrs'',
       ''gaap'', ''tax preparation'', ''audit'', ''internal controls'',
       ''financial reporting'', ''cash flow management'', ''investment analysis'',
       ''risk management'', ''sap fico'', ''oracle financials'', ''financial planning'']),
    (''marketing_sales'',
      [''digital marketing'', ''social media marketing'', ''seo'', ''sem'',
       ''google analytics'', ''google ads'', ''facebook ads'', ''content marketing'',
       ''email marketing'', ''marketing automation'', ''hubspot'', ''market research'',
       ''brand management'', ''sales'', ''business development'', ''lead generation'',
       ''customer relationship management'', ''crm'', ''salesforce'', ''negotiation'',
       ''presentation skills'', ''copywriting'', ''brand strategy'', ''market analysis'']),
    (''human_resources'',
      [''recruitment'', ''talent acquisition'', ''onboarding'',
       ''training and development'', ''performance management'',
       ''compensation and benefits'', ''employee relations'', ''hr policies'',
       ''labor law'', ''succession planning'', ''organizational development'',
       ''change management'', ''diversity and inclusion'', ''hr analytics'',
       ''payroll management'', ''hris'', ''workday'', ''successfactors'']),
    (''supply_chain'',
      [''supply chain management'', ''logistics'', ''inventory management'',
       ''procurement'', ''purchasing'', ''warehouse management'', ''demand planning'',
       ''supplier management'', ''sap mm'', ''oracle scm'']),
    (''graphic_design'',
      [''adobe photoshop'', ''adobe illustrator'', ''adobe indesign'', ''adobe xd'',
       ''figma'', ''sketch'', ''coreldraw'', ''canva'', ''ui design'', ''ux design'',
       ''user experience'', ''user interface'', ''wireframing'', ''prototyping'',
       ''visual design'', ''brand identity'', ''logo design'', ''typography'',
       ''color theory'', ''print design'', ''digital design'', ''adobe creative suite'']),
    (''video_audio'',
      [''video editing'', ''adobe premiere pro'', ''final cut pro'', ''after effects'',
       ''davinci resolve'', ''motion graphics'', ''animation'', ''3d modeling'',
       ''blender'', ''maya'', ''cinema 4d'', ''audio editing'', ''ableton live'',
       ''logic pro'', ''pro tools'', ''sound design'', ''podcast production'']),
    (''soft_skills'',
      [''communication'', ''leadership'', ''teamwork'', ''problem solving'',
       ''critical thinking'', ''adaptability'', ''time management'', ''creativity'',
       ''collaboration'', ''analytical skills'', ''strategic planning'', ''negotiation'',
       ''presentation'', ''conflict resolution'', ''decision making'',
       ''emotional intelligence'', ''public speaking'', ''writing'', ''research'',
       ''attention to detail'', ''interpersonal skills'', ''customer service'',
       ''mentoring'', ''coaching'']),
    (''languages'',
      [''english'', ''french'', ''spanish'', ''german'', ''chinese'', ''japanese'',
       ''arabic'', ''portuguese'', ''russian'', ''hindi'', ''shona'', ''ndebele'',
       ''swahili'', ''zulu'', ''afrikaans'']),
    (''healthcare'',
      [''patient care'', ''medical terminology'', ''healthcare management'',
       ''clinical research'', ''pharmaceutical'', ''nursing'', ''medical coding'',
       ''hipaa compliance'', ''electronic health records'', ''medical devices'',
       ''healthcare analytics'']),
    (''education'',
      [''teaching'', ''curriculum development'', ''lesson planning'',
       ''classroom management'', ''educational technology'', ''student assessment'',
       ''academic advising'', ''research methodology'']),
    (''legal'',
      [''legal research'', ''contract law'', ''corporate law'', ''litigation'',
       ''legal writing'', ''compliance'', ''intellectual property'',
       ''legal documentation'', ''case management'']),
    (''engineering'',
      [''mechanical engineering'', ''electrical engineering'', ''civil engineering'',
       ''chemical engineering'', ''cad'', ''autocad'', ''solidworks'', ''matlab'',
       ''simulation'', ''project engineering'', ''quality control'']),
    (''manufacturing'',
      [''lean manufacturing'', ''six sigma'', ''quality assurance'',
       ''production planning'', ''supply chain'', ''process improvement'',
       ''manufacturing operations'', ''health and safety'', ''iso 9001'']),
    (''retail'',
      [''retail management'', ''merchandising'', ''inventory control'',
       ''customer service'', ''sales floor'', ''visual merchandising'',
       ''store operations'', ''point of sale'', ''retail analytics'']),
    (''zimbabwe_skills'',
      [''zimswitch'', ''ecocash'', ''onedollar'', ''rtgs'', ''forex'', ''zimra'', ''rbz'',
       ''zimbabwean market'', ''local regulations'', ''zimbabwe business environment'',
       ''local banking'', ''zse'', ''zimbabwe stock exchange''])]"

definition wb :: "string \<Rightarrow> rx" where
  "wb s = seqs [WordB, str s, WordB]"

definition qualification_levels :: "(string \<times> rx list) list" where
  "qualification_levels =
     [(''phd'',
         [seqs [WordB, str ''ph'', Opt (lit CHR ''.''), lit CHR ''d'', Opt (lit CHR ''.''), WordB],
          wb ''doctorate'', wb ''doctor of philosophy'', wb ''dphil'', wb ''doctoral'',
          wb ''phd candidate'']),
      (''masters'',
         [wb ''master'', seqs [WordB, str ''ms'', Opt (lit CHR ''c''), WordB], wb ''ma'', wb ''mba'',
          wb ''mpa'', wb ''llm'', wb ''med'', wb ''postgraduate'', wb ''graduate degree'', wb ''msc'',
          wb ''masters'', wb ''master's'']),
      (''bachelors'',
         [wb ''bachelor'', seqs [WordB, str ''bs'', Opt (lit CHR ''c''), WordB], wb ''ba'', wb ''bcom'',
          wb ''beng'', wb ''undergraduate'', wb ''degree'', wb ''bachelor's'', wb ''btech'',
          wb ''bachelor of'']),
      (''diploma'',
         [wb ''diploma'', wb ''advanced diploma'', wb ''higher diploma'', wb ''national diploma'',
          wb ''postgraduate diploma'']),
      (''certificate'',
         [wb ''certificate'', wb ''professional certificate'', wb ''vocational certificate'',
          wb ''certification'', wb ''certified'']),
      (''high_school'',
         [wb ''a level'', wb ''o level'', wb ''high school'', wb ''secondary education'',
          wb ''advanced level'', wb ''ordinary level'', wb ''secondary school''])]"

definition industry_sectors_table :: "(string \<times> string list) list" where
  "industry_sectors_table =
   [(''technology'',
      [''software'', ''it'', ''technology'', ''computer'', ''programming'', ''developer'',
       ''engineer'', ''tech'']),
    (''finance'',
      [''banking'', ''finance'', ''investment'', ''accounting'', ''audit'', ''financial'',
       ''bank'', ''investment'']),
    (''healthcare'',
      [''medical'', ''healthcare'', ''hospital'', ''pharmaceutical'', ''nursing'',
       ''doctor'', ''health'', ''clinic'']),
    (''education'',
      [''education'', ''teaching'', ''academic'', ''university'', ''school'', ''lecturer'',
       ''college'', ''institution'']),
    (''manufacturing'',
      [''manufacturing'', ''production'', ''factory'', ''industrial'', ''engineering'',
       ''plant'', ''assembly'']),
    (''retail'',
      [''retail'', ''sales'', ''customer service'', ''merchandising'', ''store'', ''shop'',
       ''outlet'']),
    (''marketing'',
      [''marketing'', ''advertising'', ''brand'', ''digital marketing'', ''social media'',
       ''promotion'']),
    (''government'',
      [''government'', ''public sector'', ''municipal'', ''civil service'',
       ''public service'']),
    (''consulting'',
      [''consulting'', ''consultant'', ''advisory'', ''strategy consulting'']),
    (''nonprofit'',
      [''nonprofit'', ''ngo'', ''non-governmental'', ''charity'', ''non profit''])]"

section \<open>The resume analyzer: confidential code and phone number\<close>

text \<open>
  \<^verbatim>\<open>generate_confidential_code\<close>.  The digests and the clock are library calls and come
  as parameters: \<open>sha256_hex\<close> and \<open>md5_hex\<close> give the \<^verbatim>\<open>hexdigest()\<close> of the encoded
  string (lower-case hexadecimal digits), \<open>mmdd\<close> is \<^verbatim>\<open>datetime.now().strftime("%m%d")\<close>.
\<close>

definition generate_confidential_code ::
  "(string \<Rightarrow> string) \<Rightarrow> (string \<Rightarrow> string) \<Rightarrow> string \<Rightarrow> string \<Rightarrow> string \<Rightarrow> string" where
  "generate_confidential_code sha256_hex md5_hex mmdd phone_number text =
     (if phone_number \<noteq> [] then
        (let phone_hash = upper (take 8 (sha256_hex phone_number));
             timestamp = mmdd
         in ''CV-'' @ phone_hash @ ''-'' @ timestamp)
      else
        (let text_hash = upper (take 8 (md5_hex (take 500 text)))
         in ''CV-'' @ text_hash))"

text \<open>
  \<^verbatim>\<open>extract_phone_number\<close>.  \<^verbatim>\<open>re.findall\<close> gives group 1 where the pattern has a group
  (the whole match for the first two patterns, the optional prefix for the third) and the
  whole match otherwise.
\<close>

definition sep_opt :: rx where
  "sep_opt = Opt (Cls (\<lambda>c. c = CHR ''-'' \<or> c = CHR ''.'' \<or> is_space c))"

definition phone_patterns :: "rx list" where
  "phone_patterns =
     [Grp (seqs [str ''+263'', Opt space, reps digit 2 2, Opt space, reps digit 3 3, Opt space,
                 reps digit 3 4]),
      Grp (seqs [str ''07'', Cls (\<lambda>c. 49 \<le> code c \<and> code c \<le> 56), Opt space, reps digit 3 3,
                 Opt space, reps digit 3 4]),
      seqs [Opt (Grp (seqs [Opt (lit CHR ''+''), reps digit 1 3, sep_opt])),
            Opt (lit CHR ''(''), reps digit 1 4, Opt (lit CHR '')''), sep_opt, reps digit 1 4, sep_opt,
            reps digit 1 9]]"

definition phone_patterns_plain :: "rx list" where
  "phone_patterns_plain =
     [seqs [WordB, reps digit 3 3, sep_opt, reps digit 3 3, sep_opt, reps digit 4 4, WordB],
      seqs [WordB, reps digit 4 4, sep_opt, reps digit 3 3, sep_opt, reps digit 3 3, WordB]]"

definition phone_candidates :: "string \<Rightarrow> string list" where
  "phone_candidates text =
     concat (map (\<lambda>r. map (\<lambda>mt. case snd mt of Some g \<Rightarrow> g | None \<Rightarrow> []) (re_findall r text))
                 phone_patterns)
     @ concat (map (\<lambda>r. map fst (re_findall r text)) phone_patterns_plain)"

fun first_phone :: "string list \<Rightarrow> string" where
  "first_phone [] = []"
| "first_phone (mt # mts) =
     (let clean_phone = filter (\<lambda>c. is_digit c \<or> c = CHR ''+'') mt
      in if 7 \<le> length clean_phone \<and> length clean_phone \<le> 15 then clean_phone
         else first_phone mts)"

definition extract_phone_number :: "string \<Rightarrow> string" where
  "extract_phone_number text = first_phone (phone_candidates text)"

section \<open>The resume analyzer: qualifications\<close>

text \<open>\<^verbatim>\<open>_detect_qualification_level_advanced\<close>: the first level one of whose patterns is found.\<close>

fun first_level :: "(string \<times> rx list) list \<Rightarrow> string \<Rightarrow> string" where
  "first_level [] s = []"
| "first_level (lp # lps) s =
     (if list_ex (\<lambda>r. re_found r s) (snd lp) then fst lp else first_level lps s)"

definition detect_qualification_level_advanced :: "string \<Rightarrow> string" where
  "detect_qualification_level_advanced text = first_level qualification_levels (lower text)"

text \<open>\<^verbatim>\<open>_extract_institution_advanced\<close>, all patterns case-insensitive.\<close>

definition words3 :: rx where
  "words3 = reps (Seq (Plus word) (Opt space)) 1 3"

definition university_patterns :: "rx list" where
  "university_patterns =
     [seqs [stri ''University of '', words3],
      seqs [words3, stri ''University''],
      seqs [words3, stri ''College''],
      seqs [words3, stri ''Institute''],
      seqs [words3, stri ''School''],
      seqs [words3, stri ''Polytechnic''],
      stri ''Harare Institute of Technology'',
      stri ''University of Zimbabwe'',
      stri ''National University of Science and Technology'',
      stri ''Africa University'',
      stri ''Midlands State University'',
      stri ''Great Zimbabwe University'',
      stri ''Chinhoyi University of Technology'',
      stri ''Bindura University'',
      stri ''Lupane State University'',
      stri ''Zimbabwe Open University'']"

definition extract_institution_advanced :: "string \<Rightarrow> string" where
  "extract_institution_advanced text =
     (case first_match university_patterns text of Some mt \<Rightarrow> strip mt | None \<Rightarrow> [])"

definition fields :: "string list" where
  "fields =
      [''computer science'', ''information systems'', ''business administration'',
       ''engineering'', ''medicine'', ''law'', ''accounting'', ''finance'', ''marketing'',
       ''economics'', ''mathematics'', ''physics'', ''chemistry'', ''biology'',
       ''psychology'', ''sociology'', ''political science'', ''information technology'',
       ''software engineering'', ''data science'', ''artificial intelligence'',
       ''mechanical engineering'', ''electrical engineering'', ''civil engineering'',
       ''chemical engineering'', ''public health'', ''nursing'', ''pharmacy'',
       ''dentistry'', ''education'', ''teaching'', ''human resources'', ''management'',
       ''entrepreneurship'', ''international business'', ''journalism'',
       ''communications'', ''public relations'', ''graphic design'', ''architecture'']"

fun first_contained :: "string list \<Rightarrow> string \<Rightarrow> string option" where
  "first_contained [] s = None"
| "first_contained (k # ks) s = (if contains k s then Some k else first_contained ks s)"

definition extract_field_of_study_advanced :: "string \<Rightarrow> string" where
  "extract_field_of_study_advanced text =
     (case first_contained fields (lower text) of Some f \<Rightarrow> title f | None \<Rightarrow> [])"

definition calculate_qualification_confidence :: "string \<Rightarrow> string \<Rightarrow> rat" where
  "calculate_qualification_confidence text level =
     (let confidence = 6 / 10;
          confidence = (if extract_institution_advanced text \<noteq> [] then confidence + 2 / 10
                        else confidence);
          confidence = (if extract_field_of_study_advanced text \<noteq> [] then confidence + 1 / 10
                        else confidence);
          confidence = (if extract_dates text \<noteq> [] then confidence + 1 / 10 else confidence)
      in min confidence 1)"

definition extract_qualification_details :: "string \<Rightarrow> qual_info option" where
  "extract_qualification_details text =
     (let qual_level = detect_qualification_level_advanced text in
      if qual_level = [] then None
      else Some \<lparr> q_text = text,
                  q_level = qual_level,
                  q_institution = extract_institution_advanced text,
                  q_field = extract_field_of_study_advanced text,
                  q_dates = extract_dates text,
                  q_confidence = calculate_qualification_confidence text qual_level \<rparr>)"

text \<open>
  The scan of \<^verbatim>\<open>extract_qualifications_advanced\<close>: \<open>sec\<close> is the flag \<^verbatim>\<open>education_section\<close>,
  \<open>acc\<close> the entries found so far.  A heading line opens the section and is skipped; inside
  the section a short line naming another section ends the loop (\<^verbatim>\<open>break\<close>).
\<close>

definition education_start :: "string list" where
  "education_start = [''education'', ''qualifications'', ''academic'', ''degrees'',
                      ''educational background'', ''academic qualifications'']"

definition education_end :: "string list" where
  "education_end = [''experience'', ''work experience'', ''employment'', ''skills'', ''projects'',
                    ''certifications'', ''professional'']"

definition opens_education :: "string \<Rightarrow> bool" where
  "opens_education line = any_in education_start (lower (strip line))"

definition closes_education :: "string \<Rightarrow> bool" where
  "closes_education line =
     (any_in education_end (lower (strip line)) \<and> length (strip line) < 50)"

fun qualification_scan :: "bool \<Rightarrow> qual_info list \<Rightarrow> string list \<Rightarrow> qual_info list" where
  "qualification_scan sec acc [] = acc"
| "qualification_scan sec acc (line # rest) =
     (if opens_education line then qualification_scan True acc rest
      else if sec then
        (if closes_education line then acc
         else (case extract_qualification_details (strip line) of
                 Some qual_info \<Rightarrow> qualification_scan sec (acc @ [qual_info]) rest
               | None \<Rightarrow> qualification_scan sec acc rest))
      else qualification_scan sec acc rest)"

definition level_priority :: "string \<Rightarrow> nat" where
  "level_priority l =
     (if l = ''phd'' then 6 else if l = ''masters'' then 5 else if l = ''bachelors'' then 4
      else if l = ''diploma'' then 3 else if l = ''certificate'' then 2
      else if l = ''high_school'' then 1 else 0)"

text \<open>\<^verbatim>\<open>max(xs, key=f)\<close> on a non-empty list: the first element with the greatest key.\<close>

definition max_by :: "('a \<Rightarrow> nat) \<Rightarrow> 'a \<Rightarrow> 'a list \<Rightarrow> 'a" where
  "max_by f x xs = foldl (\<lambda>best y. if f best < f y then y else best) x xs"

definition qualifications_of_lines :: "string list \<Rightarrow> qualifications" where
  "qualifications_of_lines lines =
     (let quals = qualification_scan False [] lines in
      case quals of
        [] \<Rightarrow> \<lparr> highest_qualification = [], qualification_level = [], all_qualifications = [],
                institutions = [], fields_of_study = [], qualification_details = [] \<rparr>
      | q # qs \<Rightarrow>
          (let highest_qual = max_by (\<lambda>x. level_priority (q_level x)) q qs in
           \<lparr> highest_qualification = q_text highest_qual,
             qualification_level = q_level highest_qual,
             all_qualifications = quals,
             institutions = filter (\<lambda>i. i \<noteq> []) (map q_institution quals),
             fields_of_study = filter (\<lambda>f. f \<noteq> []) (map q_field quals),
             qualification_details = quals \<rparr>))"

definition extract_qualifications_advanced :: "string \<Rightarrow> qualifications" where
  "extract_qualifications_advanced text = qualifications_of_lines (split_nl text)"

section \<open>The resume analyzer: skills\<close>

text \<open>\<^verbatim>\<open>_calculate_skill_confidence_advanced\<close>; the bullet character of the second pattern lies
  outside the modelled range.\<close>

definition in_skills_section :: "string \<Rightarrow> string \<Rightarrow> bool" where
  "in_skills_section skill text =
     re_found (seqs [alts [stri ''skills'', stri ''technical skills'', stri ''competencies''],
                     LazyStar dot_all, stri skill]) text"

definition in_bullet_list :: "string \<Rightarrow> string \<Rightarrow> bool" where
  "in_bullet_list skill text =
     re_found (seqs [Cls (\<lambda>c. c = CHR ''-'' \<or> c = CHR ''*''), Star space, Star dot, str skill]) text"

definition calculate_skill_confidence_advanced :: "string \<Rightarrow> string \<Rightarrow> nat \<Rightarrow> rat" where
  "calculate_skill_confidence_advanced skill text frequency =
     (let confidence = 5 / 10;
          confidence = (if in_skills_section skill text then confidence + 3 / 10 else confidence);
          confidence = (if in_bullet_list skill text then confidence + 1 / 10 else confidence);
          confidence = (if 1 < frequency then confidence + min (1 / 10) (of_nat frequency * (5 / 100))
                        else confidence)
      in min confidence 1)"

definition skill_matches :: "string \<Rightarrow> string \<Rightarrow> nat" where
  "skill_matches skill text_lower = length (re_findall (wb skill) text_lower)"

definition skill_entry_of :: "string \<Rightarrow> string \<Rightarrow> string \<Rightarrow> skill_entry list" where
  "skill_entry_of text_lower category skill =
     (let matches = skill_matches skill text_lower in
      if 0 < matches
      then [\<lparr> s_skill = skill,
              s_confidence = calculate_skill_confidence_advanced skill text_lower matches,
              s_frequency = matches,
              s_category = category \<rparr>]
      else [])"

definition category_skills :: "string \<Rightarrow> string \<Rightarrow> string list \<Rightarrow> skill_entry list" where
  "category_skills text_lower category skills =
     concat (map (skill_entry_of text_lower category) skills)"

definition found_skills :: "string \<Rightarrow> (string \<times> skill_entry list) list" where
  "found_skills text_lower =
     filter (\<lambda>cs. snd cs \<noteq> [])
            (map (\<lambda>cs. (fst cs, category_skills text_lower (fst cs) (snd cs))) skill_keywords)"

text \<open>\<^verbatim>\<open>_get_top_skills_advanced\<close>: a stable sort by falling score, then the first fifteen.\<close>

definition get_top_skills_advanced :: "(string \<times> skill_entry list) list \<Rightarrow> top_skill list" where
  "get_top_skills_advanced by_category =
     take 15 (sort_key (\<lambda>t. - t_score t)
       (map (\<lambda>e. \<lparr> t_skill = s_skill e, t_category = s_category e,
                   t_score = s_confidence e * of_nat (s_frequency e),
                   t_frequency = s_frequency e, t_confidence = s_confidence e \<rparr>)
            (concat (map snd by_category))))"

definition extract_skills_comprehensive :: "string \<Rightarrow> skills_data" where
  "extract_skills_comprehensive text =
     (let found = found_skills (lower text) in
      \<lparr> skills_by_category = found,
        total_skills = sum_list (map (\<lambda>cs. length (snd cs)) found),
        skill_diversity = length found,
        total_skill_occurrences = sum_list (map s_frequency (concat (map snd found))),
        top_skills = get_top_skills_advanced found,
        skill_categories_present = map fst found \<rparr>)"

section \<open>The resume analyzer: experience\<close>

text \<open>
  \<^verbatim>\<open>_is_achievement_advanced\<close> searches each indicator, a plain word, in the lowered line;
  \<^verbatim>\<open>_clean_achievement\<close> removes leading bullets and white space.
\<close>

definition achievement_indicators :: "string list" where
  "achievement_indicators =
      [''achieved'', ''increased'', ''reduced'', ''improved'', ''led'', ''managed'',
       ''developed'', ''implemented'', ''saved'', ''won'', ''awarded'', ''recognized'',
       ''spearheaded'', ''created'', ''built'', ''launched'', ''optimized'',
       ''streamlined'', ''enhanced'', ''delivered'', ''exceeded'', ''accomplished'',
       ''completed'', ''successfully'']"

definition is_achievement_advanced :: "string \<Rightarrow> bool" where
  "is_achievement_advanced text = any_in achievement_indicators (lower text)"

definition clean_achievement :: "string \<Rightarrow> string" where
  "clean_achievement text =
     (let cleaned = dropWhile (\<lambda>c. c = CHR ''-'' \<or> c = CHR ''*'' \<or> is_space c) (strip text)
      in if 10 < length cleaned then cleaned else [])"

fun first_sector :: "(string \<times> string list) list \<Rightarrow> string \<Rightarrow> string" where
  "first_sector [] s = []"
| "first_sector (sk # sks) s = (if any_in (snd sk) s then fst sk else first_sector sks s)"

definition detect_industry_sector_advanced :: "string \<Rightarrow> string" where
  "detect_industry_sector_advanced text = first_sector industry_sectors_table (lower text)"

text \<open>
  The scan of \<^verbatim>\<open>extract_experience_advanced\<close>.  The state holds \<^verbatim>\<open>current_position\<close>,
  \<^verbatim>\<open>positions\<close>, the achievements and the sectors.
\<close>

definition experience_start :: "string list" where
  "experience_start = [''experience'', ''work experience'', ''employment'', ''career'',
                       ''professional experience'', ''work history'']"

definition experience_end :: "string list" where
  "experience_end = [''education'', ''skills'', ''projects'', ''certifications'', ''awards'',
                     ''references'', ''personal'']"

definition opens_experience :: "string \<Rightarrow> bool" where
  "opens_experience line = any_in experience_start (lower (strip line))"

definition closes_experience :: "string \<Rightarrow> bool" where
  "closes_experience line =
     (any_in experience_end (lower (strip line)) \<and> length (strip line) < 50)"

type_synonym exp_state =
  "position_info option \<times> position_info list \<times> string list \<times> string list"

definition experience_line :: "int \<Rightarrow> string \<Rightarrow> exp_state \<Rightarrow> exp_state" where
  "experience_line now_year line_clean st =
     (case st of (current_position, positions, achievements, sectors) \<Rightarrow>
        (let new_position = extract_position_info now_year line_clean;
             positions' = (case new_position of
                             Some p \<Rightarrow> (case current_position of
                                          Some c \<Rightarrow> positions @ [c]
                                        | None \<Rightarrow> positions)
                           | None \<Rightarrow> positions);
             current' = (case new_position of Some p \<Rightarrow> Some p | None \<Rightarrow> current_position);
             achievements' = (if is_achievement_advanced line_clean
                                 \<and> clean_achievement line_clean \<noteq> []
                              then achievements @ [clean_achievement line_clean]
                              else achievements);
             sector = detect_industry_sector_advanced line_clean;
             sectors' = (if sector \<noteq> [] \<and> sector \<notin> set sectors then sectors @ [sector]
                         else sectors)
         in (current', positions', achievements', sectors')))"

fun experience_scan :: "int \<Rightarrow> bool \<Rightarrow> exp_state \<Rightarrow> string list \<Rightarrow> exp_state" where
  "experience_scan now_year sec st [] = st"
| "experience_scan now_year sec st (line # rest) =
     (if opens_experience line then experience_scan now_year True st rest
      else if sec then
        (if closes_experience line then st
         else experience_scan now_year sec (experience_line now_year (strip line) st) rest)
      else experience_scan now_year sec st rest)"

definition calculate_total_experience_advanced :: "position_info list \<Rightarrow> int" where
  "calculate_total_experience_advanced career =
     (if career = [] then 0
      else min (sum_list (map p_duration_years (filter (\<lambda>p. 0 < p_duration_years p) career))) 50)"

definition determine_experience_level_advanced :: "int \<Rightarrow> string" where
  "determine_experience_level_advanced years =
     (if years < 1 then ''Entry Level (0-1 years)''
      else if years < 3 then ''Junior Level (1-3 years)''
      else if years < 7 then ''Mid Level (3-7 years)''
      else if years < 15 then ''Senior Level (7-15 years)''
      else ''Executive Level (15+ years)'')"

definition detect_career_gaps :: "position_info list \<Rightarrow> nat" where
  "detect_career_gaps positions =
     (if length positions < 2 then 0
      else length (filter (\<lambda>p. rat_of_int (p_duration_years p) < 1 / 2) positions))"

definition analyze_career_trajectory :: "position_info list \<Rightarrow> string" where
  "analyze_career_trajectory positions =
     (if length positions < 2 then ''Early Career''
      else (let avg_duration = rat_of_int (sum_list (map p_duration_years positions))
                               / of_nat (length positions)
            in if 3 \<le> avg_duration then ''Stable Progression''
               else if 3 / 2 \<le> avg_duration then ''Steady Growth''
               else ''Rapid Movement''))"

definition experience_of_lines ::
  "(string list \<Rightarrow> string list) \<Rightarrow> int \<Rightarrow> string list \<Rightarrow> experience_data" where
  "experience_of_lines so now_year lines =
     (case experience_scan now_year False (None, [], [], []) lines of
        (current_position, scanned, achievements, sectors) \<Rightarrow>
          (let positions = (case current_position of Some c \<Rightarrow> scanned @ [c] | None \<Rightarrow> scanned);
               total = calculate_total_experience_advanced positions
           in \<lparr> total_experience_years = total,
                experience_level = determine_experience_level_advanced total,
                industry_sectors = sectors,
                key_achievements = achievements,
                career_progression = positions,
                companies_worked = so (filter (\<lambda>c. c \<noteq> []) (map p_company positions)),
                positions_held = so (filter (\<lambda>t. t \<noteq> []) (map p_position positions)),
                career_gaps = detect_career_gaps positions,
                promotion_trajectory = analyze_career_trajectory positions \<rparr>))"

definition extract_experience_advanced ::
  "(string list \<Rightarrow> string list) \<Rightarrow> int \<Rightarrow> string \<Rightarrow> experience_data" where
  "extract_experience_advanced so now_year text = experience_of_lines so now_year (split_nl text)"

section \<open>The resume analyzer: awards and certifications\<close>

text \<open>
  \<^verbatim>\<open>extract_awards_certifications_advanced\<close>: a category receives, in order, every line
  that holds one of its indicators.
\<close>

definition award_lines :: "string \<Rightarrow> string list \<Rightarrow> string list \<Rightarrow> award_entry list" where
  "award_lines category indicators lines =
     map (\<lambda>line. \<lparr> a_text = strip line, a_confidence = 8 / 10, a_type = category \<rparr>)
         (filter (\<lambda>line. any_in indicators (lower (strip line))) lines)"

definition extract_awards_certifications_advanced :: "string \<Rightarrow> awards_data" where
  "extract_awards_certifications_advanced text =
     (let lines = split_nl text in
      \<lparr> awards = award_lines ''awards''
                   [''award'', ''prize'', ''recognition'', ''achievement award''] lines,
        certifications = award_lines ''certifications''
                   [''certification'', ''certified'', ''license'', ''accreditation''] lines,
        honors = award_lines ''honors''
                   [''honor'', ''scholarship'', ''fellowship'', ''dean's list''] lines,
        publications = award_lines ''publications''
                   [''publication'', ''paper'', ''journal'', ''conference''] lines,
        patents = award_lines ''patents''
                   [''patent'', ''invention'', ''intellectual property''] lines \<rparr>)"

section \<open>The resume analyzer: summary\<close>

definition replace_char :: "char \<Rightarrow> char \<Rightarrow> string \<Rightarrow> string" where
  "replace_char a b s = map (\<lambda>c. if c = a then b else c) s"

definition generate_comprehensive_summary ::
  "qualifications \<Rightarrow> skills_data \<Rightarrow> experience_data \<Rightarrow> awards_data \<Rightarrow> string" where
  "generate_comprehensive_summary quals skills experience aw =
     join '' ''
       ((if qualification_level quals \<noteq> []
         then [title (replace_char CHR ''_'' CHR '' '' (qualification_level quals))
                 @ '' qualified professional'']
         else [])
        @ (if 0 < total_experience_years experience
           then [''with '' @ str_of_int (total_experience_years experience) @ '' years of ''
                   @ lower (experience_level experience) @ '' experience'']
           else [])
        @ (if take 5 (top_skills skills) \<noteq> []
           then [''specializing in '' @ join '', '' (map t_skill (take 5 (top_skills skills)))]
           else [])
        @ (if industry_sectors experience \<noteq> []
           then [''across '' @ join '', '' (take 3 (industry_sectors experience)) @ '' sectors'']
           else [])
        @ (if awards aw \<noteq> [] \<or> certifications aw \<noteq> []
           then [''with notable achievements and certifications'']
           else []))
     @ ''.''"

section \<open>The scoring model: data\<close>

record category_analysis =
  ca_match_count :: nat
  ca_total_skills :: nat
  ca_match_percentage :: rat
  ca_matched_skills :: "string list"

record skill_fit =
  match_percentage :: rat
  comprehensive_match_percentage :: rat
  exact_matches :: "string list"
  related_skills :: "string list"
  critical_skill_gaps :: "string list"
  skill_diversity_score :: nat
  total_skills_count :: nat
  category_breakdown :: "(string \<times> category_analysis) list"
  skill_strength_index :: rat

record analysis_metadata =
  skill_categories_found :: nat
  total_skills_identified :: nat
  experience_years :: int
  md_qualification_level :: string
  industries_identified :: "string list"

text \<open>
  The dictionary \<^verbatim>\<open>parse_resume\<close> returns and the scoring model reads.  The scoring model
  also looks up the key \<^verbatim>\<open>skill_analysis\<close>; a dictionary without that key has \<open>None\<close> there.
\<close>

record resume_data =
  resume_code :: string
  phone_number :: string
  rd_qualifications :: qualifications
  rd_skills :: skills_data
  rd_experience :: experience_data
  rd_awards_certifications :: awards_data
  skills_list :: "(string \<times> string \<times> rat) list"
  summary :: string
  processed_text :: string
  extraction_timestamp :: string
  rd_analysis_metadata :: analysis_metadata
  rd_skill_analysis :: "skill_fit option"

section \<open>The resume analyzer: parse_resume\<close>

text \<open>
  \<^verbatim>\<open>parse_resume\<close> runs its whole body inside \<^verbatim>\<open>try: ... except Exception as e\<close>.  To say
  what the handler does, each step of the body is a component that either raises (\<open>Inl\<close>) or
  returns (\<open>Inr\<close>); \<open>parse_resume_with\<close> is the method over any such components, and
  \<open>parse_resume\<close> is the method over the analyzer's own functions.  The result is either the
  dictionary with the single key \<^verbatim>\<open>error\<close> or the full dictionary; \<open>Inl\<close> stands for an
  exception leaving \<^verbatim>\<open>parse_resume\<close>.
\<close>

datatype exn = Exn string

definition exn_text :: "exn \<Rightarrow> string" where
  "exn_text e = (case e of Exn msg \<Rightarrow> msg)"

datatype parse_result = ParseError string | Parsed resume_data

record components =
  c_extract_text :: "string \<Rightarrow> string \<Rightarrow> exn + string"
  c_phone :: "string \<Rightarrow> exn + string"
  c_code :: "string \<Rightarrow> string \<Rightarrow> exn + string"
  c_qualifications :: "string \<Rightarrow> exn + qualifications"
  c_skills :: "string \<Rightarrow> exn + skills_data"
  c_experience :: "string \<Rightarrow> exn + experience_data"
  c_awards :: "string \<Rightarrow> exn + awards_data"
  c_summary :: "qualifications \<Rightarrow> skills_data \<Rightarrow> experience_data \<Rightarrow> awards_data \<Rightarrow> exn + string"
  c_timestamp :: "exn + string"

definition and_then :: "exn + 'a \<Rightarrow> ('a \<Rightarrow> exn + 'b) \<Rightarrow> exn + 'b" where
  "and_then x f = (case x of Inl e \<Rightarrow> Inl e | Inr v \<Rightarrow> f v)"

definition parse_resume_body :: "components \<Rightarrow> string \<Rightarrow> string \<Rightarrow> exn + parse_result" where
  "parse_resume_body c file_path file_type =
     and_then (c_extract_text c file_path file_type) (\<lambda>raw_text.
       if raw_text = [] then Inr (ParseError ''Could not extract text from file'')
       else
         and_then (c_phone c raw_text) (\<lambda>phone.
         and_then (c_code c phone raw_text) (\<lambda>code.
         and_then (c_qualifications c raw_text) (\<lambda>quals.
         and_then (c_skills c raw_text) (\<lambda>skills.
         and_then (c_experience c raw_text) (\<lambda>experience.
         and_then (c_awards c raw_text) (\<lambda>aw.
         and_then (c_summary c quals skills experience aw) (\<lambda>summ.
         and_then (c_timestamp c) (\<lambda>stamp.
           Inr (Parsed
             \<lparr> resume_code = code,
               phone_number = phone,
               rd_qualifications = quals,
               rd_skills = skills,
               rd_experience = experience,
               rd_awards_certifications = aw,
               skills_list = map (\<lambda>e. (s_skill e, s_category e, s_confidence e))
                                 (concat (map snd (skills_by_category skills))),
               summary = summ,
               processed_text = take 1500 raw_text,
               extraction_timestamp = stamp,
               rd_analysis_metadata =
                 \<lparr> skill_categories_found = length (skills_by_category skills),
                   total_skills_identified = total_skills skills,
                   experience_years = total_experience_years experience,
                   md_qualification_level = qualification_level quals,
                   industries_identified = industry_sectors experience \<rparr>,
               rd_skill_analysis = None \<rparr>))))))))))"

definition parse_resume_with :: "components \<Rightarrow> string \<Rightarrow> string \<Rightarrow> exn + parse_result" where
  "parse_resume_with c file_path file_type =
     (case parse_resume_body c file_path file_type of
        Inl e \<Rightarrow> Inr (ParseError (''Error parsing resume: '' @ exn_text e))
      | Inr r \<Rightarrow> Inr r)"

text \<open>
  What the analyzer takes from outside: the text of a file (\<^verbatim>\<open>extract_text_from_file\<close>, which
  reads it with the PDF and DOCX libraries and returns the empty text when they fail), the
  digests, the clock and the set order.
\<close>

record env =
  text_of_file :: "string \<Rightarrow> string \<Rightarrow> string"
  sha256_hex :: "string \<Rightarrow> string"
  md5_hex :: "string \<Rightarrow> string"
  today_mmdd :: string
  now_iso :: string
  now_year :: int
  set_order :: "string list \<Rightarrow> string list"

definition analyzer_components :: "env \<Rightarrow> components" where
  "analyzer_components ev =
     \<lparr> c_extract_text = (\<lambda>file_path file_type. Inr (text_of_file ev file_path file_type)),
       c_phone = (\<lambda>text. Inr (extract_phone_number text)),
       c_code = (\<lambda>phone text.
                  Inr (generate_confidential_code (sha256_hex ev) (md5_hex ev) (today_mmdd ev) phone text)),
       c_qualifications = (\<lambda>text. Inr (extract_qualifications_advanced text)),
       c_skills = (\<lambda>text. Inr (extract_skills_comprehensive text)),
       c_experience = (\<lambda>text. Inr (extract_experience_advanced (set_order ev) (now_year ev) text)),
       c_awards = (\<lambda>text. Inr (extract_awards_certifications_advanced text)),
       c_summary = (\<lambda>quals skills experience aw.
                     Inr (generate_comprehensive_summary quals skills experience aw)),
       c_timestamp = Inr (now_iso ev) \<rparr>"

definition parse_resume :: "env \<Rightarrow> string \<Rightarrow> string \<Rightarrow> exn + parse_result" where
  "parse_resume ev file_path file_type = parse_resume_with (analyzer_components ev) file_path file_type"

section \<open>The scoring model: skills\<close>

text \<open>\<^verbatim>\<open>round(x, 2)\<close>: to the nearest hundredth, a tie to the even one.\<close>

definition round2 :: "rat \<Rightarrow> rat" where
  "round2 x =
     (let y = x * 100; f = \<lfloor>y\<rfloor>; d = y - of_int f in
      if d < 1 / 2 then of_int f / 100
      else if 1 / 2 < d then of_int (f + 1) / 100
      else if even f then of_int f / 100 else of_int (f + 1) / 100)"

definition skill_categories :: "(string \<times> string list) list" where
  "skill_categories =
   [(''programming_languages'',
      [''python'', ''java'', ''javascript'', ''typescript'', ''c++'', ''c#'', ''go'',
       ''rust'', ''swift'', ''kotlin'', ''php'', ''ruby'', ''scala'', ''r'', ''matlab'',
       ''perl'', ''html'', ''css'', ''sass'', ''less'', ''sql'']),
    (''web_development'',
      [''django'', ''flask'', ''fastapi'', ''spring'', ''express'', ''react'', ''angular'',
       ''vue'', ''svelte'', ''laravel'', ''ruby on rails'', ''asp.net'', ''node.js'',
       ''next.js'', ''nuxt.js'']),
    (''databases'',
      [''mysql'', ''postgresql'', ''mongodb'', ''redis'', ''sqlite'', ''oracle'',
       ''sql server'', ''cassandra'', ''dynamodb'', ''elasticsearch'']),
    (''cloud_platforms'',
      [''aws'', ''azure'', ''google cloud'', ''gcp'', ''docker'', ''kubernetes'',
       ''terraform'', ''ansible'', ''jenkins'']),
    (''data_science_ai'',
      [''machine learning'', ''deep learning'', ''tensorflow'', ''pytorch'', ''keras'',
       ''scikit-learn'', ''pandas'', ''numpy'', ''matplotlib'', ''seaborn'', ''plotly'',
       ''tableau'', ''power bi'']),
    (''project_management'',
      [''project management'', ''agile'', ''scrum'', ''kanban'', ''waterfall'',
       ''prince2'', ''pmp'', ''jira'', ''trello'', ''asana'']),
    (''business_analysis'',
      [''business analysis'', ''requirements gathering'', ''user stories'', ''use cases'',
       ''process modeling'', ''bpmn'', ''uml'']),
    (''finance_accounting'',
      [''financial analysis'', ''accounting'', ''bookkeeping'', ''financial modeling'',
       ''budgeting'', ''forecasting'', ''quickbooks'', ''xero'']),
    (''marketing_sales'',
      [''digital marketing'', ''social media marketing'', ''seo'', ''sem'',
       ''google analytics'', ''google ads'', ''facebook ads'', ''content marketing'']),
    (''soft_skills'',
      [''communication'', ''leadership'', ''teamwork'', ''problem solving'',
       ''critical thinking'', ''adaptability'', ''time management'']),
    (''healthcare'',
      [''patient care'', ''medical terminology'', ''healthcare management'',
       ''clinical research'']),
    (''engineering'',
      [''mechanical engineering'', ''electrical engineering'', ''civil engineering'',
       ''chemical engineering'']),
    (''manufacturing'',
      [''lean manufacturing'', ''six sigma'', ''quality assurance'',
       ''production planning''])]"

definition extract_skills_with_context_advanced ::
  "(string list \<Rightarrow> string list) \<Rightarrow> string \<Rightarrow> string list" where
  "extract_skills_with_context_advanced so text =
     so (concat (map (\<lambda>cs. filter (\<lambda>skill. contains skill (lower text)) (snd cs)) skill_categories))"

definition flatten_skills_advanced :: "skills_data \<Rightarrow> string list" where
  "flatten_skills_advanced sd =
     concat (map (\<lambda>cs. map s_skill (filter (\<lambda>e. 3 / 10 < s_confidence e) (snd cs)))
                 (skills_by_category sd))"

definition skill_relationships :: "(string \<times> string list) list" where
  "skill_relationships =
   [(''python'',
      [''django'', ''flask'', ''pandas'', ''numpy'', ''scikit-learn'', ''tensorflow'',
       ''keras'']),
    (''java'',
      [''spring'', ''hibernate'', ''j2ee'', ''android'', ''microservices'']),
    (''javascript'',
      [''react'', ''angular'', ''vue'', ''node.js'', ''typescript'', ''express'']),
    (''sql'',
      [''mysql'', ''postgresql'', ''oracle'', ''sql server'', ''database design'']),
    (''aws'',
      [''azure'', ''google cloud'', ''docker'', ''kubernetes'', ''terraform'', ''devops'']),
    (''machine learning'',
      [''deep learning'', ''tensorflow'', ''pytorch'', ''neural networks'',
       ''data science'']),
    (''react'',
      [''react native'', ''redux'', ''next.js'', ''frontend development'']),
    (''docker'',
      [''kubernetes'', ''containerization'', ''microservices'', ''devops'']),
    (''project management'',
      [''agile'', ''scrum'', ''kanban'', ''jira'', ''stakeholder management'']),
    (''financial analysis'',
      [''accounting'', ''forecasting'', ''budgeting'', ''financial modeling''])]"

text \<open>
  A Python set is kept as the list of its elements, each once.  \<^verbatim>\<open>_find_related_skills_advanced\<close>
  returns such a set.
\<close>

definition find_related_skills_advanced :: "string list \<Rightarrow> string list \<Rightarrow> string list" where
  "find_related_skills_advanced candidate_skills job_skills =
     remdups (concat (map (\<lambda>job_skill.
                case map_of skill_relationships job_skill of
                  None \<Rightarrow> []
                | Some rel \<Rightarrow> filter (\<lambda>r. r \<in> set candidate_skills) rel) job_skills))"

definition analyze_skill_categories ::
  "(string list \<Rightarrow> string list) \<Rightarrow> skills_data \<Rightarrow> string list \<Rightarrow> (string \<times> category_analysis) list" where
  "analyze_skill_categories so sd job_skills =
     map (\<lambda>cs.
            (let cat_skills = map s_skill (snd cs);
                 matches = remdups (filter (\<lambda>s. s \<in> set job_skills) cat_skills)
             in (fst cs,
                 \<lparr> ca_match_count = length matches,
                   ca_total_skills = length cat_skills,
                   ca_match_percentage =
                     (if job_skills \<noteq> []
                      then of_nat (length matches) / of_nat (length job_skills) * 100 else 0),
                   ca_matched_skills = so matches \<rparr>)))
         (skills_by_category sd)"

definition calculate_skill_strength_index :: "skills_data \<Rightarrow> rat" where
  "calculate_skill_strength_index sd =
     (let entries = concat (map snd (skills_by_category sd));
          total_score = sum_list (map (\<lambda>e. s_confidence e * of_nat (s_frequency e)) entries);
          n = length entries
      in if 0 < n then round2 (total_score / of_nat (max n 1) * 100) else 0)"

definition analyze_skill_fit_advanced ::
  "(string list \<Rightarrow> string list) \<Rightarrow> skills_data \<Rightarrow> string \<Rightarrow> skill_fit" where
  "analyze_skill_fit_advanced so sd job_description =
     (let job_skills = extract_skills_with_context_advanced so job_description;
          candidate_skills_flat = flatten_skills_advanced sd;
          exact = remdups (filter (\<lambda>s. s \<in> set job_skills) candidate_skills_flat);
          related = find_related_skills_advanced candidate_skills_flat job_skills;
          gaps = remdups (filter (\<lambda>s. s \<notin> set candidate_skills_flat) job_skills);
          mp = (if job_skills \<noteq> []
                then of_nat (length exact) / of_nat (length job_skills) * 100 else 0);
          cm = (if job_skills \<noteq> []
                then (of_nat (length exact) + of_nat (length related) * (7 / 10))
                       / of_nat (length job_skills) * 100
                else 0)
      in \<lparr> match_percentage = round2 mp,
           comprehensive_match_percentage = round2 cm,
           exact_matches = so exact,
           related_skills = so related,
           critical_skill_gaps = so gaps,
           skill_diversity_score = skill_diversity sd,
           total_skills_count = total_skills sd,
           category_breakdown = analyze_skill_categories so sd job_skills,
           skill_strength_index = calculate_skill_strength_index sd \<rparr>)"

section \<open>The scoring model: experience\<close>

record exp_requirements =
  min_years :: int
  req_level :: string
  management_required :: bool

record experience_fit =
  experience_sufficiency :: bool
  experience_sufficiency_score :: rat
  career_progression_score :: rat
  industry_relevance :: rat
  leadership_experience :: rat
  achievement_density :: rat
  career_stability :: rat
  required_experience :: int
  actual_experience :: int

text \<open>
  \<^verbatim>\<open>_extract_experience_requirements_advanced\<close>, on the lowered job text.  The pattern for
  \<^verbatim>\<open>max_years\<close> is searched by the source and its match is not used.
\<close>

definition min_years_rx :: rx where
  "min_years_rx = seqs [Grp (Plus digit), Opt (lit CHR ''+''), Star space, str ''year'',
                        Opt (lit CHR ''s''), Star space, str ''experience'']"

definition level_rx :: rx where
  "level_rx = Grp (alts [str ''senior'', str ''junior'', str ''mid-level'', str ''entry-level'',
                         str ''executive'', str ''lead'', str ''principal''])"

definition management_rx :: rx where
  "management_rx = alts [str ''management'', str ''manager'', str ''leadership'', str ''director'',
                         str ''head of'']"

definition group1 :: "rx \<Rightarrow> string \<Rightarrow> string option" where
  "group1 r s = (case re_search r s of None \<Rightarrow> None | Some mt \<Rightarrow> snd mt)"

definition level_mapping :: "(string \<times> int) list" where
  "level_mapping = [(''entry-level'', 0), (''junior'', 1), (''mid-level'', 3), (''senior'', 5),
                    (''lead'', 7), (''principal'', 8), (''executive'', 10)]"

definition extract_experience_requirements_advanced :: "string \<Rightarrow> exp_requirements" where
  "extract_experience_requirements_advanced job_description =
     (let jl = lower job_description;
          my = (case group1 min_years_rx jl of Some g \<Rightarrow> int_of_str g | None \<Rightarrow> 0);
          lv = (case group1 level_rx jl of Some g \<Rightarrow> g | None \<Rightarrow> []);
          mg = re_found management_rx jl
      in \<lparr> min_years = (if my = 0
                         then (case map_of level_mapping lv of Some y \<Rightarrow> y | None \<Rightarrow> 2)
                         else my),
           req_level = lv,
           management_required = mg \<rparr>)"

definition calculate_experience_sufficiency_score :: "experience_data \<Rightarrow> exp_requirements \<Rightarrow> rat" where
  "calculate_experience_sufficiency_score ed req =
     (let actual_experience = total_experience_years ed;
          required_experience = min_years req
      in if required_experience \<le> actual_experience then 100
         else if 0 < required_experience
         then min 100 (of_int actual_experience / of_int required_experience * 100)
         else 50)"

definition analyze_career_trajectory_advanced :: "experience_data \<Rightarrow> rat" where
  "analyze_career_trajectory_advanced ed =
     (if career_progression ed = [] then 0
      else
        (let position_count = length (career_progression ed);
             avg_position_duration = of_int (total_experience_years ed) / of_nat position_count;
             stability_score = min 1 (avg_position_duration / (5 / 2)) * 40;
             progression_score = min 1 (of_nat position_count / 8) * 30;
             leadership_score = (if promotion_trajectory ed = ''Stable Progression'' then 30 else 15)
         in round2 (stability_score + progression_score + leadership_score)))"

definition industry_keywords :: "(string \<times> string list) list" where
  "industry_keywords =
   [(''technology'',
      [''software'', ''it'', ''tech'', ''computer'', ''developer'', ''programming'',
       ''technology'']),
    (''finance'',
      [''banking'', ''finance'', ''investment'', ''financial'', ''accounting'', ''bank'',
       ''investment'']),
    (''healthcare'',
      [''medical'', ''health'', ''hospital'', ''healthcare'', ''pharmaceutical'',
       ''clinical'']),
    (''education'',
      [''education'', ''academic'', ''university'', ''school'', ''teaching'',
       ''educational'']),
    (''retail'',
      [''retail'', ''sales'', ''customer service'', ''merchandising'', ''e-commerce'']),
    (''manufacturing'',
      [''manufacturing'', ''production'', ''factory'', ''industrial'', ''engineering'']),
    (''consulting'',
      [''consulting'', ''consultant'', ''advisory'', ''professional services'']),
    (''government'',
      [''government'', ''public sector'', ''municipal'', ''civil service''])]"

definition extract_industries_from_job_advanced :: "string \<Rightarrow> string list" where
  "extract_industries_from_job_advanced job_description =
     map fst (filter (\<lambda>ik. any_in (snd ik) (lower job_description)) industry_keywords)"

definition analyze_industry_relevance_advanced :: "experience_data \<Rightarrow> string \<Rightarrow> rat" where
  "analyze_industry_relevance_advanced ed job_description =
     (let job_industries = extract_industries_from_job_advanced job_description;
          candidate_industries = industry_sectors ed
      in if job_industries = [] \<or> candidate_industries = [] then 50
         else
           (let overlap = remdups (filter (\<lambda>i. i \<in> set candidate_industries) job_industries);
                base_relevance = of_nat (length overlap) / of_nat (length job_industries) * 100;
                industry_diversity_bonus = min 20 (of_nat (length candidate_industries) * 5)
            in round2 (min (base_relevance + industry_diversity_bonus) 100)))"

definition leadership_keywords :: "string list" where
  "leadership_keywords =
      [''lead'', ''manage'', ''direct'', ''supervise'', ''head'', ''chief'', ''director'',
       ''manager'', ''supervisor'', ''team lead'', ''project lead'', ''oversee'',
       ''mentor'']"

definition leadership_evidence :: "position_info \<Rightarrow> nat" where
  "leadership_evidence p =
     (if any_in leadership_keywords (lower (p_description p)) then 1 else 0)
     + (if any_in [''manager'', ''director'', ''head'', ''lead'', ''chief''] (lower (p_position p))
        then 2 else 0)"

definition assess_leadership_experience :: "experience_data \<Rightarrow> rat" where
  "assess_leadership_experience ed =
     min 100 (of_nat (sum_list (map leadership_evidence (career_progression ed))) * 20)"

definition assess_career_stability :: "experience_data \<Rightarrow> rat" where
  "assess_career_stability ed =
     (if career_progression ed = [] then 50
      else
        (let total_positions = length (career_progression ed);
             short_term_positions =
               length (filter (\<lambda>p. p_duration_years p < 1) (career_progression ed));
             stability_ratio = (of_nat total_positions - of_nat short_term_positions)
                               / of_nat total_positions
         in round2 (stability_ratio * 100)))"

definition analyze_experience_fit_advanced :: "experience_data \<Rightarrow> string \<Rightarrow> experience_fit" where
  "analyze_experience_fit_advanced ed job_description =
     (let req = extract_experience_requirements_advanced job_description in
      \<lparr> experience_sufficiency = (min_years req \<le> total_experience_years ed),
        experience_sufficiency_score = calculate_experience_sufficiency_score ed req,
        career_progression_score = analyze_career_trajectory_advanced ed,
        industry_relevance = analyze_industry_relevance_advanced ed job_description,
        leadership_experience = assess_leadership_experience ed,
        achievement_density = of_nat (length (key_achievements ed))
                              / of_int (max 1 (total_experience_years ed)),
        career_stability = assess_career_stability ed,
        required_experience = min_years req,
        actual_experience = total_experience_years ed \<rparr>)"

section \<open>The scoring model: qualifications\<close>

record qualification_fit =
  qualification_sufficiency :: bool
  qualification_gap :: int
  qualification_score :: int
  required_level_score :: int
  field_relevance :: rat
  candidate_level :: string
  required_level :: string

definition level_scores :: "(string \<times> int) list" where
  "level_scores = [(''phd'', 100), (''masters'', 85), (''bachelors'', 70), (''diploma'', 60),
                   (''certificate'', 50), ([], 30)]"

definition qualification_keywords :: "(string \<times> string list) list" where
  "qualification_keywords =
   [(''phd'',
      [''phd'', ''doctorate'', ''doctoral'']),
    (''masters'',
      [''master'', ''masters'', ''mba'', ''msc'', ''ma'', ''postgraduate'']),
    (''bachelors'',
      [''bachelor'', ''degree'', ''undergraduate'', ''bsc'', ''ba'', ''bcom'']),
    (''diploma'',
      [''diploma'', ''certificate'', ''certification''])]"

fun first_keyed :: "(string \<times> string list) list \<Rightarrow> string \<Rightarrow> string" where
  "first_keyed [] s = []"
| "first_keyed (lk # lks) s = (if any_in (snd lk) s then fst lk else first_keyed lks s)"

definition extract_required_qualification_level_advanced :: "string \<Rightarrow> string" where
  "extract_required_qualification_level_advanced job_description =
     first_keyed qualification_keywords (lower job_description)"

definition field_keywords :: "(string \<times> string list) list" where
  "field_keywords =
   [(''computer science'',
      [''computer science'', ''cs'', ''software engineering'', ''information systems'',
       ''computing'']),
    (''business'',
      [''business administration'', ''mba'', ''commerce'', ''business'', ''management'']),
    (''engineering'',
      [''engineering'', ''engineer'', ''mechanical'', ''electrical'', ''civil'',
       ''chemical'']),
    (''mathematics'',
      [''mathematics'', ''math'', ''statistics'', ''applied math'']),
    (''finance'',
      [''finance'', ''accounting'', ''economics'', ''banking'', ''investment''])]"

definition extract_field_requirements_advanced :: "string \<Rightarrow> string list" where
  "extract_field_requirements_advanced job_description =
     map fst (filter (\<lambda>fk. any_in (snd fk) (lower job_description)) field_keywords)"

definition analyze_field_relevance_advanced :: "qualifications \<Rightarrow> string \<Rightarrow> rat" where
  "analyze_field_relevance_advanced quals job_description =
     (let job_fields = extract_field_requirements_advanced job_description;
          candidate_fields = fields_of_study quals
      in if job_fields = [] \<or> candidate_fields = [] then 50
         else
           (let overlap = remdups (filter (\<lambda>f. f \<in> set candidate_fields) job_fields);
                relevance = of_nat (length overlap) / of_nat (length job_fields) * 100;
                relevance = (if 1 < length candidate_fields
                             then relevance + min 20 ((of_nat (length candidate_fields) - 1) * 5)
                             else relevance)
            in round2 (min relevance 100)))"

definition analyze_qualification_fit_advanced :: "qualifications \<Rightarrow> string \<Rightarrow> qualification_fit" where
  "analyze_qualification_fit_advanced quals job_description =
     (let req_level = extract_required_qualification_level_advanced job_description;
          cand_level = qualification_level quals;
          candidate_score = (case map_of level_scores cand_level of Some v \<Rightarrow> v | None \<Rightarrow> 30);
          required_score = (case map_of level_scores req_level of Some v \<Rightarrow> v | None \<Rightarrow> 50)
      in \<lparr> qualification_sufficiency = (required_score \<le> candidate_score),
           qualification_gap = max 0 (required_score - candidate_score),
           qualification_score = candidate_score,
           required_level_score = required_score,
           field_relevance = analyze_field_relevance_advanced quals job_description,
           candidate_level = cand_level,
           required_level = req_level \<rparr>)"

section \<open>The scoring model: cultural fit and achievements\<close>

record cultural_fit =
  culture_alignment :: nat
  adaptability_score :: rat
  potential_longevity :: rat
  team_fit :: rat

record achievements_impact =
  achievement_score :: nat
  ai_total_achievements :: nat
  has_awards :: bool
  has_certifications :: bool
  has_publications :: bool

definition culture_keywords :: "string list" where
  "culture_keywords =
      [''fast-paced'', ''innovative'', ''collaborative'', ''team-oriented'', ''startup'',
       ''dynamic'', ''creative'', ''agile'', ''flexible'', ''remote'', ''hybrid'',
       ''growth mindset'', ''customer-focused'', ''results-driven'', ''entrepreneurial'']"

definition extract_culture_indicators_advanced :: "string \<Rightarrow> string list" where
  "extract_culture_indicators_advanced job_description =
     filter (\<lambda>keyword. contains keyword (lower job_description)) culture_keywords"

definition calculate_adaptability_score_advanced :: "resume_data \<Rightarrow> rat" where
  "calculate_adaptability_score_advanced rd =
     (let score = 50;
          industry_count = length (industry_sectors (rd_experience rd));
          score = score + min 20 (of_nat industry_count * 5);
          score = score + min 20 (of_nat (skill_diversity (rd_skills rd)) * 2);
          score = (if career_progression (rd_experience rd) \<noteq> [] then score + 10 else score);
          companies_count = length (companies_worked (rd_experience rd));
          score = score + min 10 (of_nat companies_count * 2)
      in min score 100)"

definition assess_longevity_potential_advanced :: "resume_data \<Rightarrow> rat" where
  "assess_longevity_potential_advanced rd =
     (let experience = rd_experience rd;
          total_experience = total_experience_years experience
      in if total_experience < 2 then 40
         else if career_progression experience \<noteq> [] then
           (let avg_duration = rat_of_int total_experience
                               / of_nat (length (career_progression experience))
            in if 3 \<le> avg_duration then 90
               else if 2 \<le> avg_duration then 75
               else if 1 \<le> avg_duration then 60
               else 45)
         else 50)"

definition assess_team_fit :: "(string list \<Rightarrow> string list) \<Rightarrow> resume_data \<Rightarrow> string \<Rightarrow> rat" where
  "assess_team_fit so rd job_description =
     (comprehensive_match_percentage (analyze_skill_fit_advanced so (rd_skills rd) job_description)
      + experience_sufficiency_score (analyze_experience_fit_advanced (rd_experience rd) job_description))
     / 2"

definition analyze_cultural_fit_advanced ::
  "(string list \<Rightarrow> string list) \<Rightarrow> resume_data \<Rightarrow> string \<Rightarrow> cultural_fit" where
  "analyze_cultural_fit_advanced so rd job_description =
     \<lparr> culture_alignment = length (extract_culture_indicators_advanced job_description) * 10,
       adaptability_score = calculate_adaptability_score_advanced rd,
       potential_longevity = assess_longevity_potential_advanced rd,
       team_fit = assess_team_fit so rd job_description \<rparr>"

definition analyze_achievements_impact :: "awards_data \<Rightarrow> achievements_impact" where
  "analyze_achievements_impact aw =
     (let total = length (awards aw) + length (certifications aw) + length (honors aw)
                  + length (publications aw) + length (patents aw)
      in \<lparr> achievement_score = min 100 (total * 15),
           ai_total_achievements = total,
           has_awards = (0 < length (awards aw)),
           has_certifications = (0 < length (certifications aw)),
           has_publications = (0 < length (publications aw)) \<rparr>)"

section \<open>The scoring model: overall score, recommendation, questions\<close>

definition calculate_comprehensive_score ::
  "skill_fit \<Rightarrow> experience_fit \<Rightarrow> qualification_fit \<Rightarrow> cultural_fit \<Rightarrow> achievements_impact \<Rightarrow> rat" where
  "calculate_comprehensive_score sf ef qf cf ai =
     (let skill_score = comprehensive_match_percentage sf;
          experience_score = experience_sufficiency_score ef;
          qualification_score' = of_int (qualification_score qf);
          cultural_score = (of_nat (culture_alignment cf) + adaptability_score cf) / 2;
          achievements_score = of_nat (achievement_score ai);
          total_score = skill_score * (40 / 100) + experience_score * (30 / 100)
                        + qualification_score' * (15 / 100) + cultural_score * (10 / 100)
                        + achievements_score * (5 / 100)
      in round2 total_score)"

text \<open>
  The recommendation texts start with a pictograph outside the modelled character range;
  each text is a constructor, named after its capitals.
\<close>

datatype hiring_recommendation =
    TopCandidate | StrongRecommend | Recommend | SkillFocusedCandidate | ExperiencedCandidate
  | BorderlineCandidate | NotRecommended

definition generate_detailed_recommendation ::
  "rat \<Rightarrow> skill_fit \<Rightarrow> experience_fit \<Rightarrow> hiring_recommendation" where
  "generate_detailed_recommendation score sf ef =
     (if 90 \<le> score then TopCandidate
      else if 80 \<le> score then StrongRecommend
      else if 70 \<le> score then Recommend
      else if 60 \<le> score then
        (if 70 \<le> comprehensive_match_percentage sf then SkillFocusedCandidate
         else ExperiencedCandidate)
      else if 50 \<le> score then BorderlineCandidate
      else NotRecommended)"

definition skill_gap_question :: "string list \<Rightarrow> string" where
  "skill_gap_question skill_gaps =
     ''How would you approach developing skills in '' @ join '', '' (take 2 skill_gaps)
     @ '' to meet our requirements?''"

definition ramp_up_question :: string where
  "ramp_up_question =
     ''What strategies would you use to quickly ramp up in this role given your experience level?''"

definition progression_question :: string where
  "progression_question =
     ''Can you walk us through your career progression and what motivated your key transitions?''"

definition achievement_question :: string where
  "achievement_question =
     ''Which of your professional achievements are you most proud of and how do they relate to this role?''"

definition industry_question :: "string \<Rightarrow> string" where
  "industry_question industry =
     ''How has your experience in '' @ industry @ '' prepared you for this position?''"

definition behavioral_questions :: "string list" where
  "behavioral_questions =
     [''Describe a challenging project you worked on and how you overcame obstacles.'',
      ''How do you stay current with industry trends and technologies?'',
      ''What attracted you to this particular role and our company?'']"

definition generate_targeted_questions :: "resume_data \<Rightarrow> string \<Rightarrow> string list" where
  "generate_targeted_questions rd job_description =
     (let skill_gaps = (case rd_skill_analysis rd of
                          None \<Rightarrow> []
                        | Some sa \<Rightarrow> critical_skill_gaps sa);
          experience = rd_experience rd;
          questions = (if skill_gaps \<noteq> [] then [skill_gap_question skill_gaps] else []);
          questions = questions @ (if total_experience_years experience < 3
                                   then [ramp_up_question] else []);
          questions = questions @ (if 0 < length (career_progression experience)
                                   then [progression_question] else []);
          questions = questions @ (if key_achievements experience \<noteq> []
                                   then [achievement_question] else []);
          questions = questions @ (case industry_sectors experience of
                                     [] \<Rightarrow> []
                                   | industry # others \<Rightarrow> [industry_question industry]);
          questions = questions @ behavioral_questions
      in take 6 questions)"

text \<open>
  Two of the strengths carry a number written into the text; they are kept as a constructor
  with the number: \<^verbatim>\<open>Strong skills alignment (..% match)\<close>,
  \<^verbatim>\<open>Substantial professional experience (.. years)\<close>,
  \<^verbatim>\<open>Advanced educational qualifications\<close>, \<^verbatim>\<open>Stable career progression\<close>.
\<close>

datatype strength =
    StrongSkillsAlignment rat | SubstantialExperience int | AdvancedQualifications
  | StableCareerProgression

record strengths_weaknesses =
  strengths :: "strength list"
  weaknesses :: "string list"
  development_areas :: "string list"

definition identify_strengths_weaknesses ::
  "(string list \<Rightarrow> string list) \<Rightarrow> resume_data \<Rightarrow> string \<Rightarrow> strengths_weaknesses" where
  "identify_strengths_weaknesses so rd job_description =
     (let sa = analyze_skill_fit_advanced so (rd_skills rd) job_description;
          experience = rd_experience rd;
          strong = (70 \<le> comprehensive_match_percentage sa);
          st = (if strong then [StrongSkillsAlignment (comprehensive_match_percentage sa)] else []);
          wk = (if strong then []
                else [''Skill gaps in: '' @ join '', '' (take 3 (critical_skill_gaps sa))]);
          st = st @ (if 3 \<le> total_experience_years experience
                     then [SubstantialExperience (total_experience_years experience)] else []);
          wk = wk @ (if 3 \<le> total_experience_years experience then []
                     else [''Limited professional experience'']);
          st = st @ (if qualification_level (rd_qualifications rd) \<in> {''masters'', ''phd''}
                     then [AdvancedQualifications] else []);
          st = st @ (if promotion_trajectory experience = ''Stable Progression''
                     then [StableCareerProgression] else [])
      in \<lparr> strengths = take 4 st,
           weaknesses = take 3 wk,
           development_areas = take 3 (critical_skill_gaps sa) \<rparr>)"

record job_fit =
  overall_score :: rat
  fit_skill_analysis :: skill_fit
  fit_experience_analysis :: experience_fit
  fit_qualification_analysis :: qualification_fit
  fit_cultural_fit :: cultural_fit
  fit_achievements_impact :: achievements_impact
  fit_hiring_recommendation :: hiring_recommendation
  fit_interview_questions :: "string list"
  fit_strengths_weaknesses :: strengths_weaknesses

definition analyze_candidate_fit ::
  "(string list \<Rightarrow> string list) \<Rightarrow> resume_data \<Rightarrow> string \<Rightarrow> job_fit" where
  "analyze_candidate_fit so rd job_description =
     (let sf = analyze_skill_fit_advanced so (rd_skills rd) job_description;
          ef = analyze_experience_fit_advanced (rd_experience rd) job_description;
          qf = analyze_qualification_fit_advanced (rd_qualifications rd) job_description;
          cf = analyze_cultural_fit_advanced so rd job_description;
          ai = analyze_achievements_impact (rd_awards_certifications rd);
          score = calculate_comprehensive_score sf ef qf cf ai
      in \<lparr> overall_score = score,
           fit_skill_analysis = sf,
           fit_experience_analysis = ef,
           fit_qualification_analysis = qf,
           fit_cultural_fit = cf,
           fit_achievements_impact = ai,
           fit_hiring_recommendation = generate_detailed_recommendation score sf ef,
           fit_interview_questions = generate_targeted_questions rd job_description,
           fit_strengths_weaknesses = identify_strengths_weaknesses so rd job_description \<rparr>)"

section \<open>The scoring model: the report\<close>

record section_scores =
  experience_section :: int
  skills_section :: int
  education_section :: int
  achievements_section :: int

record quality_analysis =
  qa_overall_score :: int
  qa_section_scores :: section_scores
  qa_strengths :: "string list"
  qa_improvements :: "string list"
  ats_compatibility :: int

definition identify_resume_strengths :: "resume_data \<Rightarrow> string list" where
  "identify_resume_strengths rd =
     (if 3 \<le> total_experience_years (rd_experience rd)
      then [''Clear career progression and substantial experience''] else [])
     @ (if 15 \<le> total_skills (rd_skills rd)
        then [''Diverse and comprehensive skill set''] else [])
     @ (if highest_qualification (rd_qualifications rd) \<noteq> []
        then [''Well-documented educational background''] else [])
     @ (if awards (rd_awards_certifications rd) \<noteq> [] \<or> certifications (rd_awards_certifications rd) \<noteq> []
        then [''Notable professional achievements and certifications''] else [])"

definition identify_resume_improvements :: "resume_data \<Rightarrow> string list" where
  "identify_resume_improvements rd =
     (if total_experience_years (rd_experience rd) < 2
      then [''Could benefit from more detailed project descriptions''] else [])
     @ (if total_skills (rd_skills rd) < 8
        then [''Consider expanding technical and professional skills section''] else [])
     @ (if highest_qualification (rd_qualifications rd) = []
        then [''Include educational qualifications if applicable''] else [])"

definition generate_quality_analysis_advanced :: "resume_data \<Rightarrow> quality_analysis" where
  "generate_quality_analysis_advanced rd =
     (let quality_score = 65;
          years = total_experience_years (rd_experience rd);
          quality_score = (if 2 < years then quality_score + 10 else quality_score);
          quality_score = (if 5 < years then quality_score + 5 else quality_score);
          n_skills = int (total_skills (rd_skills rd));
          quality_score = (if 10 < n_skills then quality_score + 10 else quality_score);
          quality_score = (if 20 < n_skills then quality_score + 5 else quality_score);
          has_qual = (highest_qualification (rd_qualifications rd) \<noteq> []);
          quality_score = (if has_qual then quality_score + 10 else quality_score);
          aw = rd_awards_certifications rd;
          total_achievements = int (length (awards aw) + length (certifications aw) + length (honors aw));
          quality_score = (if 0 < total_achievements
                           then quality_score + min 10 (total_achievements * 2) else quality_score);
          quality_score = min quality_score 100
      in \<lparr> qa_overall_score = quality_score,
           qa_section_scores =
             \<lparr> experience_section = min 100 (years * 8 + 40),
               skills_section = min 100 (n_skills * 3),
               education_section = (if has_qual then 100 else 50),
               achievements_section = min 100 (total_achievements * 20) \<rparr>,
           qa_strengths = identify_resume_strengths rd,
           qa_improvements = identify_resume_improvements rd,
           ats_compatibility = 80 \<rparr>)"

definition determine_interview_priority_advanced :: "rat \<Rightarrow> string" where
  "determine_interview_priority_advanced score =
     (if 85 \<le> score then ''HIGH PRIORITY - Schedule immediately''
      else if 70 \<le> score then ''MEDIUM PRIORITY - Schedule within week''
      else if 55 \<le> score then ''LOW PRIORITY - Consider if other candidates unavailable''
      else ''NOT RECOMMENDED - Significant gaps identified'')"

datatype overall_recommendation =
    ExceptionalCandidate | StrongCandidate | PromisingCandidate | DevelopmentCandidate
  | NotSuitable

definition generate_comprehensive_recommendation_advanced ::
  "job_fit \<Rightarrow> quality_analysis \<Rightarrow> overall_recommendation" where
  "generate_comprehensive_recommendation_advanced jf quality =
     (if 85 \<le> overall_score jf \<and> 80 \<le> qa_overall_score quality then ExceptionalCandidate
      else if 75 \<le> overall_score jf then StrongCandidate
      else if 60 \<le> overall_score jf then PromisingCandidate
      else if 50 \<le> overall_score jf then DevelopmentCandidate
      else NotSuitable)"

record job_fit_summary =
  compatibility_score :: rat
  skill_match :: rat
  experience_match :: rat
  education_match :: int
  matching_skills :: "string list"
  missing_skills :: "string list"
  skill_match_breakdown :: "(string \<times> category_analysis) list"
  fit_analysis :: hiring_recommendation

record report =
  job_fit_analysis :: job_fit_summary
  rep_quality_analysis :: quality_analysis
  interview_priority :: string
  recommendation :: overall_recommendation
  interview_questions :: "string list"
  rep_strengths_weaknesses :: strengths_weaknesses
  rep_resume_code :: string
  confidential_lookup :: string

definition generate_comprehensive_report ::
  "(string list \<Rightarrow> string list) \<Rightarrow> string \<Rightarrow> resume_data \<Rightarrow> report" where
  "generate_comprehensive_report so job_requirements rd =
     (let jf = analyze_candidate_fit so rd job_requirements;
          quality = generate_quality_analysis_advanced rd
      in \<lparr> job_fit_analysis =
             \<lparr> compatibility_score = overall_score jf,
               skill_match = match_percentage (fit_skill_analysis jf),
               experience_match = experience_sufficiency_score (fit_experience_analysis jf),
               education_match = qualification_score (fit_qualification_analysis jf),
               matching_skills = exact_matches (fit_skill_analysis jf),
               missing_skills = critical_skill_gaps (fit_skill_analysis jf),
               skill_match_breakdown = category_breakdown (fit_skill_analysis jf),
               fit_analysis = fit_hiring_recommendation jf \<rparr>,
           rep_quality_analysis = quality,
           interview_priority = determine_interview_priority_advanced (overall_score jf),
           recommendation = generate_comprehensive_recommendation_advanced jf quality,
           interview_questions = fit_interview_questions jf,
           rep_strengths_weaknesses = fit_strengths_weaknesses jf,
           rep_resume_code = resume_code rd,
           confidential_lookup = ''Use phone number with resume code: '' @ resume_code rd \<rparr>)"

section \<open>A sample environment\<close>

text \<open>
  For the worked examples: a file with the given text, digests that return a fixed
  hexadecimal string, the clock at 3 November 2026, and sets listed in insertion order.
  \<open>sample_profile\<close> is the dictionary \<^verbatim>\<open>parse_resume\<close> returns for such a file.
\<close>

definition sample_env :: "string \<Rightarrow> env" where
  "sample_env text =
     \<lparr> text_of_file = (\<lambda>file_path file_type. text),
       sha256_hex = (\<lambda>s. ''9f86d081884c7d659a2feaa0c55ad015a3bf4f1b2b0b822cd15d6c15b0f00a08''),
       md5_hex = (\<lambda>s. ''098f6bcd4621d373cade4e832627b4f6''),
       today_mmdd = ''1103'',
       now_iso = ''2026-11-03T09:00:00'',
       now_year = 2026,
       set_order = remdups \<rparr>"

definition sample_profile :: "string \<Rightarrow> resume_data option" where
  "sample_profile text =
     (case parse_resume (sample_env text) ''cv.pdf'' ''pdf'' of
        Inr (Parsed rd) \<Rightarrow> Some rd
      | _ \<Rightarrow> None)"

section \<open>Notions used in the proofs\<close>

text \<open>
  A position comes from a line when \<open>extract_position_info\<close> returns it for that line; a
  state of the experience scan comes from lines when its positions do.
\<close>

definition from_line :: "int \<Rightarrow> position_info \<Rightarrow> bool" where
  "from_line now_yr p = (\<exists>line. extract_position_info now_yr line = Some p)"

definition state_from_lines :: "int \<Rightarrow> exp_state \<Rightarrow> bool" where
  "state_from_lines now_yr st =
     (case st of (cur, poss, achs, secs) \<Rightarrow>
        (\<forall>p. cur = Some p \<longrightarrow> from_line now_yr p) \<and> (\<forall>p \<in> set poss. from_line now_yr p))"

text \<open>
  The fields of a report that do not list a set: the scores, the recommendation texts, the
  questions, the quality analysis, the strengths and the code; and the skills of the two
  lists of the job fit, as sets.
\<close>

definition stable_fields ::
  "report \<Rightarrow> (rat \<times> rat \<times> rat \<times> int \<times> hiring_recommendation)
            \<times> (string set \<times> string set)
            \<times> (quality_analysis \<times> string \<times> overall_recommendation \<times> string list)
            \<times> (strength list \<times> string \<times> string)" where
  "stable_fields r =
     ((compatibility_score (job_fit_analysis r), skill_match (job_fit_analysis r),
       experience_match (job_fit_analysis r), education_match (job_fit_analysis r),
       fit_analysis (job_fit_analysis r)),
      (set (matching_skills (job_fit_analysis r)), set (missing_skills (job_fit_analysis r))),
      (rep_quality_analysis r, interview_priority r, recommendation r, interview_questions r),
      (strengths (rep_strengths_weaknesses r), rep_resume_code r, confidential_lookup r))"

section \<open>Evaluation of the character classes\<close>

text \<open>
  The character classes are given by character codes.  For evaluation each of them is also
  characterised on the eight bits of a character, bit 0 first.
\<close>

lemma is_digit_bits [code]:
  "is_digit (Char b0 b1 b2 b3 b4 b5 b6 b7) =
     (\<not> b7 \<and> \<not> b6 \<and> b5 \<and> b4 \<and> (\<not> b3 \<or> (\<not> b2 \<and> \<not> b1)))"
  by (cases b0; cases b1; cases b2; cases b3; cases b4; cases b5; cases b6; cases b7;
      simp add: is_digit_def code_def)

lemma is_space_bits [code]:
  "is_space (Char b0 b1 b2 b3 b4 b5 b6 b7) =
     (if b7 then \<not> b6 \<and> \<not> b4 \<and> \<not> b3 \<and> (if b5 then \<not> b2 \<and> \<not> b1 \<and> \<not> b0 else b2 \<and> \<not> b1 \<and> b0)
      else \<not> b6 \<and> (if b5 then \<not> b4 \<and> \<not> b3 \<and> \<not> b2 \<and> \<not> b1 \<and> \<not> b0
                    else if b4 then b3 \<and> b2
                    else b3 \<and> (if b2 then \<not> b1 else b1 \<or> b0)))"
  by (cases b0; cases b1; cases b2; cases b3; cases b4; cases b5; cases b6; cases b7;
      simp add: is_space_def code_def)

lemma is_word_bits [code]:
  "is_word (Char b0 b1 b2 b3 b4 b5 b6 b7) =
     (if b7 then
        (if b6 then \<not> b4 \<or> b3 \<or> \<not> b2 \<or> \<not> b1 \<or> \<not> b0
         else b5 \<and> (if b4 then
                       (if b3 then (if b2 then \<not> b1 \<or> \<not> b0 else if b1 then \<not> b0 else b0)
                        else if b2 then \<not> b1 \<and> b0 else b1)
                     else b3 \<and> \<not> b2 \<and> b1 \<and> \<not> b0))
      else if b6 then
        (if b5 then (if b4 then \<not> b3 \<or> (\<not> b2 \<and> (\<not> b1 \<or> \<not> b0)) else b3 \<or> b2 \<or> b1 \<or> b0)
         else if b4 then \<not> b3 \<or> (if b2 then b1 \<and> b0 else \<not> b1 \<or> \<not> b0)
         else b3 \<or> b2 \<or> b1 \<or> b0)
      else b5 \<and> b4 \<and> (\<not> b3 \<or> (\<not> b2 \<and> \<not> b1)))"
  by (cases b0; cases b1; cases b2; cases b3; cases b4; cases b5; cases b6; cases b7;
      simp add: is_word_def code_def)

lemma is_alpha_bits [code]:
  "is_alpha (Char b0 b1 b2 b3 b4 b5 b6 b7) =
     (\<not> b7 \<and> b6 \<and> (if b4 then \<not> b3 \<or> (\<not> b2 \<and> (\<not> b1 \<or> \<not> b0)) else b3 \<or> b2 \<or> b1 \<or> b0))"
  by (cases b0; cases b1; cases b2; cases b3; cases b4; cases b5; cases b6; cases b7;
      simp add: is_alpha_def code_def)

lemma lower_char_bits [code]:
  "lower_char (Char b0 b1 b2 b3 b4 b5 b6 b7) =
     (if b6 \<and> \<not> b5 \<and>
         (if b7 then \<not> b4 \<or> \<not> b2 \<or> \<not> b1 \<or> \<not> b0
          else if b4 then \<not> b3 \<or> (\<not> b2 \<and> (\<not> b1 \<or> \<not> b0)) else b3 \<or> b2 \<or> b1 \<or> b0)
      then Char b0 b1 b2 b3 b4 True b6 b7
      else Char b0 b1 b2 b3 b4 b5 b6 b7)"
  by (cases b0; cases b1; cases b2; cases b3; cases b4; cases b5; cases b6; cases b7;
      simp add: lower_char_def code_def char_of_def)

lemma upper_char_bits [code]:
  "upper_char (Char b0 b1 b2 b3 b4 b5 b6 b7) =
     (if \<not> b7 \<and> b6 \<and> b5 \<and>
         (if b4 then \<not> b3 \<or> (\<not> b2 \<and> (\<not> b1 \<or> \<not> b0)) else b3 \<or> b2 \<or> b1 \<or> b0)
      then Char b0 b1 b2 b3 b4 False b6 b7
      else Char b0 b1 b2 b3 b4 b5 b6 b7)"
  by (cases b0; cases b1; cases b2; cases b3; cases b4; cases b5; cases b6; cases b7;
      simp add: upper_char_def code_def char_of_def)

section \<open>Set order\<close>

lemma valid_order_remdups: "valid_order remdups"
  by (simp add: valid_order_def)

lemma valid_order_rev_remdups: "valid_order (\<lambda>xs. rev (remdups xs))"
  by (simp add: valid_order_def)

lemma valid_order_set: "valid_order so \<Longrightarrow> set (so xs) = set xs"
  by (simp add: valid_order_def)


lemma valid_order_length: "valid_order so \<Longrightarrow> length (so xs) = card (set xs)"
  using distinct_card[of "so xs"] by (simp add: valid_order_def)

lemma valid_order_empty: "valid_order so \<Longrightarrow> (so xs = []) = (xs = [])"
  using valid_order_set[of so xs] by (metis set_empty)

section \<open>Year tokens and the duration of a position\<close>

lemma year_rx_match:
  "mk year_rx Some (pc, s, g) = Some e \<Longrightarrow>
     \<exists>c1 c2 c3 c4 r. s = c1 # c2 # c3 # c4 # r \<and> is_digit c1 \<and> is_digit c2 \<and> is_digit c3
        \<and> is_digit c4 \<and> rest_of e = r"
  by (auto simp: year_rx_def seqs_def lit_def digit_def rest_of_def group_of_def is_digit_def
                 code_def
           split: list.splits if_splits option.splits)

lemma year_token_isdigit: "mk year_rx Some (pc, s, g) = Some e \<Longrightarrow> isdigit (consumed s e)"
  by (drule year_rx_match) (auto simp: consumed_def isdigit_def)

lemma findall_year_isdigit: "\<forall>t \<in> set (findall_from year_rx k pc s). isdigit (fst t)"
proof (induction year_rx k pc s rule: findall_from.induct)
  case (1 k pc)
  then show ?case by simp
next
  case (2 k pc c cs)
  then show ?case
    by (auto split: option.splits dest: year_token_isdigit)
qed

lemma year_matches_isdigit: "y \<in> set (year_matches dates) \<Longrightarrow> isdigit y"
  using findall_year_isdigit[of 0 None dates] by (auto simp: year_matches_def re_findall_def)

text \<open>
  The second year token is always a string of digits, so the branch that takes the current
  year is never entered: the duration does not depend on the clock.
\<close>

lemma duration_formula:
  "calculate_position_duration now_yr dates =
     (case year_matches dates of
        y0 # y1 # ys \<Rightarrow> int_of_str y1 - int_of_str y0
      | _ \<Rightarrow> 0)"
proof (cases "year_matches dates")
  case Nil
  then show ?thesis by (simp add: calculate_position_duration_def)
next
  case outer: (Cons y0 r)
  show ?thesis
  proof (cases r)
    case Nil
    with outer show ?thesis by (simp add: calculate_position_duration_def)
  next
    case (Cons y1 r')
    have "isdigit y1"
      using year_matches_isdigit[of y1 dates] outer Cons by simp
    then show ?thesis
      using outer Cons by (simp add: calculate_position_duration_def)
  qed
qed

lemma duration_ignores_clock:
  "calculate_position_duration now1 dates = calculate_position_duration now2 dates"
  by (simp add: duration_formula)

lemma present_range_tokens: "year_matches ''2019 - Present'' = [''2019'']"
  by code_simp

text \<open>
  C3.  The claim says that a range ending in "Present" lasts from its start year to the
  current year.  The line below carries the range "2019 - Present"; the extractor returns
  that range, its only year token is 2019, and the duration is 0 for every current year.
\<close>

theorem present_range_has_duration_zero:
  "extract_dates ''Engineer at Acme 2019 - Present'' = ''2019 - Present''
   \<and> calculate_position_duration now_yr ''2019 - Present'' = 0"
proof
  show "extract_dates ''Engineer at Acme 2019 - Present'' = ''2019 - Present''"
    by code_simp
  show "calculate_position_duration now_yr ''2019 - Present'' = 0"
    by (simp add: duration_formula present_range_tokens)
qed

lemma experience_line_from_lines:
  "state_from_lines now_yr st \<Longrightarrow> state_from_lines now_yr (experience_line now_yr l st)"
  by (cases st)
     (auto simp: state_from_lines_def experience_line_def Let_def from_line_def
           split: option.splits)

lemma experience_scan_from_lines:
  "state_from_lines now_yr st \<Longrightarrow> state_from_lines now_yr (experience_scan now_yr sec st ls)"
  by (induction now_yr sec st ls rule: experience_scan.induct)
     (auto simp: experience_line_from_lines)

lemma career_progression_from_lines:
  assumes "p \<in> set (career_progression (experience_of_lines so now_yr ls))"
  shows "from_line now_yr p"
proof -
  have init: "state_from_lines now_yr (None, [], [], [])"
    by (simp add: state_from_lines_def)
  obtain cur poss achs secs where
    sc: "experience_scan now_yr False (None, [], [], []) ls = (cur, poss, achs, secs)"
    by (cases "experience_scan now_yr False (None, [], [], []) ls") auto
  have inv: "state_from_lines now_yr (cur, poss, achs, secs)"
    using experience_scan_from_lines[OF init, of False ls] sc by simp
  have "p \<in> set (case cur of Some c \<Rightarrow> poss @ [c] | None \<Rightarrow> poss)"
    using assms sc by (simp add: experience_of_lines_def Let_def)
  then show ?thesis
    using inv by (auto simp: state_from_lines_def split: option.splits)
qed

text \<open>
  C7, the claim as stated: the duration of every extracted position is at least 0.  The text
  below has one position line whose range runs from 2020 back to 2018; its duration is -2.
\<close>

theorem descending_range_counterexample:
  "map p_duration_years
     (career_progression
        (extract_experience_advanced remdups 2026 ''Experience\<newline>Developer, Acme 2020-2018''))
   = [- 2]"
  by code_simp

text \<open>
  C7, amended: the duration of every extracted position is the second year token of its
  date range minus the first, and 0 when the range has fewer than two year tokens; so it is
  at least 0 exactly when the range has fewer than two year tokens or its first year token
  is not greater than its second.
\<close>

theorem position_duration_is_token_difference:
  assumes "p \<in> set (career_progression (extract_experience_advanced so now_yr text))"
  shows "p_duration_years p =
           (case year_matches (p_dates p) of
              y0 # y1 # ys \<Rightarrow> int_of_str y1 - int_of_str y0
            | _ \<Rightarrow> 0)
         \<and> (0 \<le> p_duration_years p \<longleftrightarrow>
              (case year_matches (p_dates p) of
                 y0 # y1 # ys \<Rightarrow> int_of_str y0 \<le> int_of_str y1
               | _ \<Rightarrow> True))"
proof -
  have "from_line now_yr p"
    using assms career_progression_from_lines by (simp add: extract_experience_advanced_def)
  then obtain line where "extract_position_info now_yr line = Some p"
    by (auto simp: from_line_def)
  then have d: "p_duration_years p = calculate_position_duration now_yr (p_dates p)"
    by (auto simp: extract_position_info_def Let_def split: if_splits)
  show ?thesis
    unfolding d duration_formula by (auto split: list.splits)
qed

lemma ascending_range_positions:
  "career_progression
     (extract_experience_advanced remdups 2026 ''Experience\<newline>Developer at Acme 2015-2018'')
   = [\<lparr> p_position = ''Developer'', p_company = ''Acme'', p_dates = ''2015-2018'',
        p_duration_years = 3, p_description = ''Developer at Acme 2015-2018'' \<rparr>]"
  by code_simp

theorem position_duration_is_token_difference_witness:
  "(let p = \<lparr> p_position = ''Developer'', p_company = ''Acme'', p_dates = ''2015-2018'',
              p_duration_years = 3, p_description = ''Developer at Acme 2015-2018'' \<rparr>
    in p \<in> set (career_progression
                 (extract_experience_advanced remdups 2026
                    ''Experience\<newline>Developer at Acme 2015-2018''))
       \<and> p_duration_years p =
           (case year_matches (p_dates p) of
              y0 # y1 # ys \<Rightarrow> int_of_str y1 - int_of_str y0
            | _ \<Rightarrow> 0)
       \<and> (0 \<le> p_duration_years p \<longleftrightarrow>
            (case year_matches (p_dates p) of
               y0 # y1 # ys \<Rightarrow> int_of_str y0 \<le> int_of_str y1
             | _ \<Rightarrow> True)))"
proof -
  let ?p = "\<lparr> p_position = ''Developer'', p_company = ''Acme'', p_dates = ''2015-2018'',
              p_duration_years = 3, p_description = ''Developer at Acme 2015-2018'' \<rparr>"
  have m: "?p \<in> set (career_progression
                 (extract_experience_advanced remdups 2026
                    ''Experience\<newline>Developer at Acme 2015-2018''))"
    by (simp add: ascending_range_positions)
  show ?thesis
    using m position_duration_is_token_difference[OF m] by (simp add: Let_def)
qed

section \<open>The confidential code\<close>

text \<open>
  C5.  With a non-empty phone number the code is "CV-", the first eight characters of the
  SHA-256 digest of the phone number in upper case, "-", and the month and day of the
  current date; it does not depend on the text.  With an empty phone number it is "CV-" and
  the first eight characters of the MD5 digest of the first 500 characters of the text, in
  upper case, with no date.
\<close>

theorem confidential_code_format:
  "(phone \<noteq> [] \<longrightarrow>
      generate_confidential_code sha md5 mmdd phone text
        = ''CV-'' @ upper (take 8 (sha phone)) @ ''-'' @ mmdd
      \<and> generate_confidential_code sha md5 mmdd phone text
          = generate_confidential_code sha md5 mmdd phone text')
   \<and> generate_confidential_code sha md5 mmdd [] text
       = ''CV-'' @ upper (take 8 (md5 (take 500 text)))"
  by (simp add: generate_confidential_code_def)

theorem confidential_code_format_witness:
  "''0771234567'' \<noteq> []
   \<and> generate_confidential_code (sha256_hex (sample_env [])) (md5_hex (sample_env [])) ''1103''
        ''0771234567'' ''Jane Doe, 0771234567'' = ''CV-9F86D081-1103''
   \<and> generate_confidential_code (sha256_hex (sample_env [])) (md5_hex (sample_env [])) ''1103''
        ''0771234567'' ''Jane Doe, 0771234567''
      = generate_confidential_code (sha256_hex (sample_env [])) (md5_hex (sample_env [])) ''1103''
        ''0771234567'' ''another text''"
proof -
  have ne: "''0771234567'' \<noteq> []"
    by simp
  have up: "upper (take 8 (sha256_hex (sample_env []) ''0771234567'')) = ''9F86D081''"
    by (simp add: sample_env_def upper_def upper_char_bits)
  note fmt = confidential_code_format[of "''0771234567''" "sha256_hex (sample_env [])"
          "md5_hex (sample_env [])" "''1103''" "''Jane Doe, 0771234567''" "''another text''"]
  from fmt ne have
    "generate_confidential_code (sha256_hex (sample_env [])) (md5_hex (sample_env [])) ''1103''
        ''0771234567'' ''Jane Doe, 0771234567''
      = ''CV-'' @ upper (take 8 (sha256_hex (sample_env []) ''0771234567'')) @ ''-'' @ ''1103''"
    and "generate_confidential_code (sha256_hex (sample_env [])) (md5_hex (sample_env [])) ''1103''
        ''0771234567'' ''Jane Doe, 0771234567''
      = generate_confidential_code (sha256_hex (sample_env [])) (md5_hex (sample_env [])) ''1103''
        ''0771234567'' ''another text''"
    by blast+
  then show ?thesis
    using ne by (simp only: up) simp
qed

section \<open>Errors of parse_resume\<close>

text \<open>
  C4.  Whatever its steps do, raise or return, \<^verbatim>\<open>parse_resume\<close> returns a value and lets no
  exception out; when the text extracted from the file is empty the value is the error
  dictionary with the message of the source; and over the analyzer's own steps a non-empty
  text gives a profile.
\<close>

theorem parse_resume_returns_profile_or_error:
  "(\<exists>r. parse_resume_with c file_path file_type = Inr r)
   \<and> (c_extract_text c file_path file_type = Inr [] \<longrightarrow>
        parse_resume_with c file_path file_type
          = Inr (ParseError ''Could not extract text from file''))
   \<and> (text_of_file ev file_path file_type = [] \<longrightarrow>
        parse_resume ev file_path file_type
          = Inr (ParseError ''Could not extract text from file''))
   \<and> (text_of_file ev file_path file_type \<noteq> [] \<longrightarrow>
        (\<exists>rd. parse_resume ev file_path file_type = Inr (Parsed rd)))"
proof (intro conjI impI)
  show "\<exists>r. parse_resume_with c file_path file_type = Inr r"
    by (simp add: parse_resume_with_def split: sum.splits)
  show "parse_resume_with c file_path file_type
          = Inr (ParseError ''Could not extract text from file'')"
    if "c_extract_text c file_path file_type = Inr []"
    using that by (simp add: parse_resume_with_def parse_resume_body_def and_then_def)
  show "parse_resume ev file_path file_type
          = Inr (ParseError ''Could not extract text from file'')"
    if "text_of_file ev file_path file_type = []"
    using that
    by (simp add: parse_resume_def parse_resume_with_def parse_resume_body_def and_then_def
                  analyzer_components_def)
  show "\<exists>rd. parse_resume ev file_path file_type = Inr (Parsed rd)"
    if "text_of_file ev file_path file_type \<noteq> []"
    using that
    by (simp add: parse_resume_def parse_resume_with_def parse_resume_body_def and_then_def
                  analyzer_components_def)
qed

theorem parse_resume_returns_profile_or_error_witness:
  "c_extract_text (analyzer_components (sample_env [])) ''cv.pdf'' ''pdf'' = Inr []
   \<and> text_of_file (sample_env []) ''cv.pdf'' ''pdf'' = []
   \<and> text_of_file (sample_env ''python'') ''cv.pdf'' ''pdf'' \<noteq> []
   \<and> parse_resume_with (analyzer_components (sample_env [])) ''cv.pdf'' ''pdf''
       = Inr (ParseError ''Could not extract text from file'')
   \<and> parse_resume (sample_env []) ''cv.pdf'' ''pdf''
       = Inr (ParseError ''Could not extract text from file'')
   \<and> (\<exists>rd. parse_resume (sample_env ''python'') ''cv.pdf'' ''pdf'' = Inr (Parsed rd))"
  using parse_resume_returns_profile_or_error[of "analyzer_components (sample_env [])"
          "''cv.pdf''" "''pdf''" "sample_env []"]
        parse_resume_returns_profile_or_error[of "analyzer_components (sample_env [])"
          "''cv.pdf''" "''pdf''" "sample_env ''python''"]
  by (simp add: analyzer_components_def sample_env_def)

section \<open>Confidence of the extracted skills\<close>

lemma skill_confidence_bounds:
  "1 / 2 \<le> calculate_skill_confidence_advanced skill text frequency
   \<and> calculate_skill_confidence_advanced skill text frequency \<le> 1"
proof -
  have "0 \<le> min (1 / 10) (rat_of_nat frequency * (5 / 100))"
    by simp
  then show ?thesis
    by (simp add: calculate_skill_confidence_advanced_def Let_def min_def)
qed

lemma skill_entry_confidence:
  "e \<in> set (skill_entry_of text_lower category skill) \<Longrightarrow>
     1 / 2 \<le> s_confidence e \<and> s_confidence e \<le> 1"
  using skill_confidence_bounds
  by (auto simp: skill_entry_of_def Let_def split: if_splits)

lemma found_skills_confidence:
  assumes "cs \<in> set (found_skills text_lower)" and "e \<in> set (snd cs)"
  shows "1 / 2 \<le> s_confidence e \<and> s_confidence e \<le> 1"
proof -
  obtain category skills where "e \<in> set (category_skills text_lower category skills)"
    using assms by (auto simp: found_skills_def)
  then obtain skill where "e \<in> set (skill_entry_of text_lower category skill)"
    by (auto simp: category_skills_def)
  then show ?thesis by (rule skill_entry_confidence)
qed

text \<open>
  C10.  Every skill entry produced by skill extraction has a confidence between 0.5 and 1,
  and the flattening of the scoring model, which keeps the entries with a confidence above
  0.3, keeps every skill of every category, in order.
\<close>

theorem extracted_skills_confident_and_kept:
  "(\<forall>cs \<in> set (skills_by_category (extract_skills_comprehensive text)).
      \<forall>e \<in> set (snd cs). 1 / 2 \<le> s_confidence e \<and> s_confidence e \<le> 1)
   \<and> flatten_skills_advanced (extract_skills_comprehensive text)
       = concat (map (\<lambda>cs. map s_skill (snd cs))
                     (skills_by_category (extract_skills_comprehensive text)))"
proof
  show bounds: "\<forall>cs \<in> set (skills_by_category (extract_skills_comprehensive text)).
      \<forall>e \<in> set (snd cs). 1 / 2 \<le> s_confidence e \<and> s_confidence e \<le> 1"
    using found_skills_confidence by (simp add: extract_skills_comprehensive_def Let_def)
  have keep: "filter (\<lambda>e. 3 / 10 < s_confidence e) (snd cs) = snd cs"
    if "cs \<in> set (skills_by_category (extract_skills_comprehensive text))" for cs
  proof -
    have "\<forall>e \<in> set (snd cs). 3 / 10 < s_confidence e"
      using bounds that by fastforce
    then show ?thesis by (rule filter_True)
  qed
  show "flatten_skills_advanced (extract_skills_comprehensive text)
       = concat (map (\<lambda>cs. map s_skill (snd cs))
                     (skills_by_category (extract_skills_comprehensive text)))"
    unfolding flatten_skills_advanced_def
    by (rule arg_cong[where f = concat], rule map_cong[OF refl]) (simp only: keep)
qed

lemma python_skill_entries:
  "skills_by_category (extract_skills_comprehensive ''python'')
   = [(''programming_languages'',
       [\<lparr> s_skill = ''python'', s_confidence = 1 / 2, s_frequency = 1,
          s_category = ''programming_languages'' \<rparr>])]"
  by code_simp

theorem extracted_skills_confident_and_kept_witness:
  "(let e = \<lparr> s_skill = ''python'', s_confidence = 1 / 2, s_frequency = 1,
                s_category = ''programming_languages'' \<rparr>
    in skills_by_category (extract_skills_comprehensive ''python'')
         = [(''programming_languages'', [e])]
       \<and> 1 / 2 \<le> s_confidence e \<and> s_confidence e \<le> 1
       \<and> flatten_skills_advanced (extract_skills_comprehensive ''python'') = [''python''])"
  using extracted_skills_confident_and_kept[of "''python''"]
  by (simp add: python_skill_entries)

section \<open>The end of a section\<close>

lemma qualification_scan_stops:
  assumes "sec \<or> (\<exists>h \<in> set pre. opens_education h)"
    and "\<forall>l \<in> set pre. closes_education l \<longrightarrow> opens_education l"
    and "closes_education c" and "\<not> opens_education c"
  shows "qualification_scan sec acc (pre @ c # post) = qualification_scan sec acc pre"
  using assms(1,2)
proof (induction pre arbitrary: sec acc)
  case Nil
  then show ?case using assms(3,4) by simp
next
  case (Cons l ls)
  show ?case
  proof (cases "opens_education l")
    case True
    then show ?thesis using Cons.IH[of True acc] Cons.prems by simp
  next
    case False
    then have nc: "\<not> closes_education l" using Cons.prems by simp
    have "sec \<or> (\<exists>h \<in> set ls. opens_education h)" using Cons.prems False by auto
    then show ?thesis using Cons.IH[of sec] Cons.prems False nc
      by (cases sec) (auto split: option.splits)
  qed
qed

lemma experience_scan_stops:
  assumes "sec \<or> (\<exists>h \<in> set pre. opens_experience h)"
    and "\<forall>l \<in> set pre. closes_experience l \<longrightarrow> opens_experience l"
    and "closes_experience c" and "\<not> opens_experience c"
  shows "experience_scan y sec st (pre @ c # post) = experience_scan y sec st pre"
  using assms(1,2)
proof (induction pre arbitrary: sec st)
  case Nil
  then show ?case using assms(3,4) by simp
next
  case (Cons l ls)
  show ?case
  proof (cases "opens_experience l")
    case True
    then show ?thesis using Cons.IH[of True st] Cons.prems by simp
  next
    case False
    then have nc: "\<not> closes_experience l" using Cons.prems by simp
    have "sec \<or> (\<exists>h \<in> set ls. opens_experience h)" using Cons.prems False by auto
    then show ?thesis using Cons.IH[of sec] Cons.prems False nc
      by (cases sec) auto
  qed
qed

text \<open>
  C8, the claim as stated: a section closed by the heading of another section is opened
  again by a later heading of its own, and the entries after it are extracted.  In the text
  below a second "Education" heading and a doctorate follow the "Experience" heading; the
  only qualification extracted is the one before "Experience".
\<close>

theorem second_education_heading_counterexample:
  "map q_text (all_qualifications (extract_qualifications_advanced
      ''Education\<newline>BSc Physics\<newline>Experience\<newline>Education\<newline>PhD Physics''))
     = [''BSc Physics'']
   \<and> qualification_level (extract_qualifications_advanced
      ''Education\<newline>BSc Physics\<newline>Experience\<newline>Education\<newline>PhD Physics'')
     = ''bachelors''"
  by code_simp

text \<open>
  The same for the whole list of lines.  Before the heading \<open>h\<close> the lines \<open>a\<close> are
  arbitrary: if the scan has already ended among them both sides are the result reached
  there, and otherwise the heading opens the section, \<open>b\<close> keeps it open and \<open>c\<close> ends
  the scan.
\<close>

lemma qualification_scan_after_heading:
  assumes "opens_education h"
    and "\<forall>l \<in> set b. closes_education l \<longrightarrow> opens_education l"
    and "closes_education c" and "\<not> opens_education c"
  shows "qualification_scan sec acc (a @ h # b @ c # post)
           = qualification_scan sec acc (a @ h # b)"
proof (induction a arbitrary: sec acc)
  case Nil
  show ?case
    using qualification_scan_stops[of sec "h # b" c acc post] assms by simp
next
  case (Cons l ls)
  show ?case
    by (simp add: Cons.IH split: option.splits)
qed

lemma experience_scan_after_heading:
  assumes "opens_experience h"
    and "\<forall>l \<in> set b. closes_experience l \<longrightarrow> opens_experience l"
    and "closes_experience c" and "\<not> opens_experience c"
  shows "experience_scan y sec st (a @ h # b @ c # post)
           = experience_scan y sec st (a @ h # b)"
proof (induction a arbitrary: sec st)
  case Nil
  show ?case
    using experience_scan_stops[of sec "h # b" c y st post] assms by simp
next
  case (Cons l ls)
  show ?case
    by (simp add: Cons.IH)
qed

text \<open>
  C8, amended: a section is never opened again.  When a heading of the section is followed
  by lines that do not close it and then by a short line that names another section (and is
  not a heading of the section itself), the scan ends at that line: whatever lines come
  before the heading and whatever lines follow the closing line, a second heading of the
  section and the entries under it included, the result is that of the lines before the
  closing line.  This holds for the education scan and for the experience scan.
\<close>

theorem scan_ends_at_closing_line:
  "(opens_education h
      \<and> (\<forall>l \<in> set b. closes_education l \<longrightarrow> opens_education l)
      \<and> closes_education c \<and> \<not> opens_education c
      \<and> split_nl text = a @ h # b @ c # post
    \<longrightarrow> extract_qualifications_advanced text = qualifications_of_lines (a @ h # b))
   \<and> (opens_experience h'
      \<and> (\<forall>l \<in> set b'. closes_experience l \<longrightarrow> opens_experience l)
      \<and> closes_experience c' \<and> \<not> opens_experience c'
      \<and> split_nl text' = a' @ h' # b' @ c' # post'
    \<longrightarrow> extract_experience_advanced so y text' = experience_of_lines so y (a' @ h' # b'))"
proof (intro conjI impI)
  assume "opens_education h
      \<and> (\<forall>l \<in> set b. closes_education l \<longrightarrow> opens_education l)
      \<and> closes_education c \<and> \<not> opens_education c
      \<and> split_nl text = a @ h # b @ c # post"
  then show "extract_qualifications_advanced text = qualifications_of_lines (a @ h # b)"
    using qualification_scan_after_heading[of h b c False "[]" a post]
    by (simp add: extract_qualifications_advanced_def qualifications_of_lines_def)
next
  assume "opens_experience h'
      \<and> (\<forall>l \<in> set b'. closes_experience l \<longrightarrow> opens_experience l)
      \<and> closes_experience c' \<and> \<not> opens_experience c'
      \<and> split_nl text' = a' @ h' # b' @ c' # post'"
  then show "extract_experience_advanced so y text' = experience_of_lines so y (a' @ h' # b')"
    using experience_scan_after_heading[of h' b' c' y False "(None, [], [], [])" a' post']
    by (simp add: extract_experience_advanced_def experience_of_lines_def)
qed

lemma education_example_lines:
  "split_nl ''Experience\<newline>Dev at Acme 2019-2020\<newline>Education\<newline>BSc Physics\<newline>Skills\<newline>Education\<newline>PhD Physics''
     = [''Experience'', ''Dev at Acme 2019-2020''] @ ''Education'' # [''BSc Physics'']
         @ ''Skills'' # [''Education'', ''PhD Physics'']
   \<and> opens_education ''Education'' \<and> \<not> closes_education ''BSc Physics''
   \<and> closes_education ''Skills'' \<and> \<not> opens_education ''Skills''"
  by code_simp

lemma experience_example_lines:
  "split_nl ''Education\<newline>BSc Physics\<newline>Experience\<newline>Clerk at Bank 2015-2018\<newline>Skills\<newline>Experience\<newline>Dev at Acme 2019-2021''
     = [''Education'', ''BSc Physics''] @ ''Experience'' # [''Clerk at Bank 2015-2018'']
         @ ''Skills'' # [''Experience'', ''Dev at Acme 2019-2021'']
   \<and> opens_experience ''Experience'' \<and> \<not> closes_experience ''Clerk at Bank 2015-2018''
   \<and> closes_experience ''Skills'' \<and> \<not> opens_experience ''Skills''"
  by code_simp

theorem scan_ends_at_closing_line_witness:
  "opens_education ''Education'' \<and> \<not> closes_education ''BSc Physics''
   \<and> closes_education ''Skills'' \<and> \<not> opens_education ''Skills''
   \<and> split_nl ''Experience\<newline>Dev at Acme 2019-2020\<newline>Education\<newline>BSc Physics\<newline>Skills\<newline>Education\<newline>PhD Physics''
       = [''Experience'', ''Dev at Acme 2019-2020''] @ ''Education'' # [''BSc Physics'']
           @ ''Skills'' # [''Education'', ''PhD Physics'']
   \<and> extract_qualifications_advanced
        ''Experience\<newline>Dev at Acme 2019-2020\<newline>Education\<newline>BSc Physics\<newline>Skills\<newline>Education\<newline>PhD Physics''
       = qualifications_of_lines
           ([''Experience'', ''Dev at Acme 2019-2020''] @ ''Education'' # [''BSc Physics''])
   \<and> opens_experience ''Experience'' \<and> \<not> closes_experience ''Clerk at Bank 2015-2018''
   \<and> closes_experience ''Skills'' \<and> \<not> opens_experience ''Skills''
   \<and> split_nl ''Education\<newline>BSc Physics\<newline>Experience\<newline>Clerk at Bank 2015-2018\<newline>Skills\<newline>Experience\<newline>Dev at Acme 2019-2021''
       = [''Education'', ''BSc Physics''] @ ''Experience'' # [''Clerk at Bank 2015-2018'']
           @ ''Skills'' # [''Experience'', ''Dev at Acme 2019-2021'']
   \<and> extract_experience_advanced remdups 2026
        ''Education\<newline>BSc Physics\<newline>Experience\<newline>Clerk at Bank 2015-2018\<newline>Skills\<newline>Experience\<newline>Dev at Acme 2019-2021''
       = experience_of_lines remdups 2026
           ([''Education'', ''BSc Physics''] @ ''Experience'' # [''Clerk at Bank 2015-2018''])"
proof -
  have edu: "opens_education ''Education''
      \<and> (\<forall>l \<in> set [''BSc Physics'']. closes_education l \<longrightarrow> opens_education l)
      \<and> closes_education ''Skills'' \<and> \<not> opens_education ''Skills''
      \<and> split_nl ''Experience\<newline>Dev at Acme 2019-2020\<newline>Education\<newline>BSc Physics\<newline>Skills\<newline>Education\<newline>PhD Physics''
          = [''Experience'', ''Dev at Acme 2019-2020''] @ ''Education'' # [''BSc Physics'']
              @ ''Skills'' # [''Education'', ''PhD Physics'']"
    using education_example_lines by simp
  have exp: "opens_experience ''Experience''
      \<and> (\<forall>l \<in> set [''Clerk at Bank 2015-2018'']. closes_experience l \<longrightarrow> opens_experience l)
      \<and> closes_experience ''Skills'' \<and> \<not> opens_experience ''Skills''
      \<and> split_nl ''Education\<newline>BSc Physics\<newline>Experience\<newline>Clerk at Bank 2015-2018\<newline>Skills\<newline>Experience\<newline>Dev at Acme 2019-2021''
          = [''Education'', ''BSc Physics''] @ ''Experience'' # [''Clerk at Bank 2015-2018'']
              @ ''Skills'' # [''Experience'', ''Dev at Acme 2019-2021'']"
    using experience_example_lines by simp
  note th = scan_ends_at_closing_line[of "''Education''" "[''BSc Physics'']" "''Skills''"
      "''Experience\<newline>Dev at Acme 2019-2020\<newline>Education\<newline>BSc Physics\<newline>Skills\<newline>Education\<newline>PhD Physics''"
      "[''Experience'', ''Dev at Acme 2019-2020'']" "[''Education'', ''PhD Physics'']"
      "''Experience''" "[''Clerk at Bank 2015-2018'']" "''Skills''"
      "''Education\<newline>BSc Physics\<newline>Experience\<newline>Clerk at Bank 2015-2018\<newline>Skills\<newline>Experience\<newline>Dev at Acme 2019-2021''"
      "[''Education'', ''BSc Physics'']" "[''Experience'', ''Dev at Acme 2019-2021'']"
      remdups 2026]
  have q: "extract_qualifications_advanced
        ''Experience\<newline>Dev at Acme 2019-2020\<newline>Education\<newline>BSc Physics\<newline>Skills\<newline>Education\<newline>PhD Physics''
       = qualifications_of_lines
           ([''Experience'', ''Dev at Acme 2019-2020''] @ ''Education'' # [''BSc Physics''])"
    using th edu by blast
  have x: "extract_experience_advanced remdups 2026
        ''Education\<newline>BSc Physics\<newline>Experience\<newline>Clerk at Bank 2015-2018\<newline>Skills\<newline>Experience\<newline>Dev at Acme 2019-2021''
       = experience_of_lines remdups 2026
           ([''Education'', ''BSc Physics''] @ ''Experience'' # [''Clerk at Bank 2015-2018''])"
    using th exp by blast
  show ?thesis
    using q x education_example_lines experience_example_lines by simp
qed

section \<open>A parsed profile\<close>

text \<open>The dictionary \<^verbatim>\<open>parse_resume\<close> returns for a file with the text "python django flask".\<close>

lemma sample_profile_python_django_flask:
  "sample_profile ''python django flask'' =
     Some \<lparr> resume_code = ''CV-098F6BCD'',
            phone_number = [],
            rd_qualifications =
              \<lparr> highest_qualification = [], qualification_level = [], all_qualifications = [],
                institutions = [], fields_of_study = [], qualification_details = [] \<rparr>,
            rd_skills =
              \<lparr> skills_by_category =
                  [(''programming_languages'',
                    [\<lparr> s_skill = ''python'', s_confidence = 1 / 2, s_frequency = 1,
                       s_category = ''programming_languages'' \<rparr>]),
                   (''web_development'',
                    [\<lparr> s_skill = ''django'', s_confidence = 1 / 2, s_frequency = 1,
                       s_category = ''web_development'' \<rparr>,
                     \<lparr> s_skill = ''flask'', s_confidence = 1 / 2, s_frequency = 1,
                       s_category = ''web_development'' \<rparr>])],
                total_skills = 3,
                skill_diversity = 2,
                total_skill_occurrences = 3,
                top_skills =
                  [\<lparr> t_skill = ''python'', t_category = ''programming_languages'', t_score = 1 / 2,
                     t_frequency = 1, t_confidence = 1 / 2 \<rparr>,
                   \<lparr> t_skill = ''django'', t_category = ''web_development'', t_score = 1 / 2,
                     t_frequency = 1, t_confidence = 1 / 2 \<rparr>,
                   \<lparr> t_skill = ''flask'', t_category = ''web_development'', t_score = 1 / 2,
                     t_frequency = 1, t_confidence = 1 / 2 \<rparr>],
                skill_categories_present = [''programming_languages'', ''web_development''] \<rparr>,
            rd_experience =
              \<lparr> total_experience_years = 0, experience_level = ''Entry Level (0-1 years)'',
                industry_sectors = [], key_achievements = [], career_progression = [],
                companies_worked = [], positions_held = [], career_gaps = 0,
                promotion_trajectory = ''Early Career'' \<rparr>,
            rd_awards_certifications =
              \<lparr> awards = [], certifications = [], honors = [], publications = [], patents = [] \<rparr>,
            skills_list =
              [(''python'', ''programming_languages'', 1 / 2),
               (''django'', ''web_development'', 1 / 2),
               (''flask'', ''web_development'', 1 / 2)],
            summary = ''specializing in python, django, flask.'',
            processed_text = ''python django flask'',
            extraction_timestamp = ''2026-11-03T09:00:00'',
            rd_analysis_metadata =
              \<lparr> skill_categories_found = 2, total_skills_identified = 3, experience_years = 0,
                md_qualification_level = [], industries_identified = [] \<rparr>,
            rd_skill_analysis = None \<rparr>"
  by code_simp

section \<open>The range of the overall score\<close>

lemma all_culture_keywords:
  "length (extract_culture_indicators_advanced
     ''fast-paced innovative collaborative team-oriented startup dynamic creative agile flexible remote hybrid growth mindset customer-focused results-driven entrepreneurial'')
   = 15"
  by code_simp

text \<open>
  The cultural alignment is ten points for each culture keyword of the job text, with no
  cap: a job text with all fifteen keywords gives 150.
\<close>

lemma culture_alignment_150:
  "culture_alignment (analyze_cultural_fit_advanced so rd
     ''fast-paced innovative collaborative team-oriented startup dynamic creative agile flexible remote hybrid growth mindset customer-focused results-driven entrepreneurial'')
   = 150"
  by (simp add: analyze_cultural_fit_advanced_def all_culture_keywords)

text \<open>
  C1.  The claim says that the overall score never exceeds 100.  For the resume text
  "python django flask" and the job text "python" the only required skill is matched and the
  two related skills add 0.7 each: the comprehensive match percentage is 240 and the overall
  score is 103.2.
\<close>

theorem overall_score_above_100:
  "map_option
     (\<lambda>rd. (comprehensive_match_percentage
              (analyze_skill_fit_advanced remdups (rd_skills rd) ''python''),
            compatibility_score
              (job_fit_analysis (generate_comprehensive_report remdups ''python'' rd))))
     (sample_profile ''python django flask'')
   = Some (240, 516 / 5)"
  unfolding sample_profile_python_django_flask by code_simp

section \<open>The skill match of one skill in three\<close>

lemma excel_not_in_taxonomy: "''excel'' \<notin> set (concat (map snd skill_categories))"
  by code_simp

text \<open>No job text makes "excel" a required skill: the table of the scoring model lacks it.\<close>

lemma excel_never_required:
  assumes "valid_order so"
  shows "''excel'' \<notin> set (extract_skills_with_context_advanced so text)"
proof -
  have "set (extract_skills_with_context_advanced so text)
          \<subseteq> set (concat (map snd skill_categories))"
    using valid_order_set[OF assms] by (auto simp: extract_skills_with_context_advanced_def)
  then show ?thesis using excel_not_in_taxonomy by blast
qed



text \<open>
  What the engine does with a job text that names excel: for "python, sql, excel" the
  required skills are python and sql, and a candidate with python alone matches one in two.
\<close>

lemma excel_job_text:
  "(let fit = analyze_skill_fit_advanced remdups (extract_skills_comprehensive ''python'')
                ''python, sql, excel''
    in (extract_skills_with_context_advanced remdups ''python, sql, excel'',
        match_percentage fit, exact_matches fit, critical_skill_gaps fit))
   = ([''python'', ''sql''], 50, [''python''], [''sql''])"
  by code_simp




section \<open>The interview questions\<close>

text \<open>
  The dictionary \<^verbatim>\<open>parse_resume\<close> returns has no key \<^verbatim>\<open>skill_analysis\<close>, and without it
  the list of questions starts with none about skill gaps.
\<close>

lemma parsed_profile_has_no_skill_analysis:
  "parse_resume_with c file_path file_type = Inr (Parsed rd) \<Longrightarrow> rd_skill_analysis rd = None"
  by (auto simp: parse_resume_with_def parse_resume_body_def and_then_def
           split: sum.splits if_splits)

lemma questions_without_skill_analysis:
  "rd_skill_analysis rd = None \<Longrightarrow>
     generate_targeted_questions rd job =
       take 6
         ((if total_experience_years (rd_experience rd) < 3 then [ramp_up_question] else [])
          @ (if career_progression (rd_experience rd) \<noteq> [] then [progression_question] else [])
          @ (if key_achievements (rd_experience rd) \<noteq> [] then [achievement_question] else [])
          @ (case industry_sectors (rd_experience rd) of
               [] \<Rightarrow> []
             | industry # others \<Rightarrow> [industry_question industry])
          @ behavioral_questions)"
  by (simp add: generate_targeted_questions_def Let_def)

lemma questions_at_most_six: "length (generate_targeted_questions rd job) \<le> 6"
  by (simp only: generate_targeted_questions_def Let_def length_take min.cobounded2)

text \<open>
  C6.  The claim says that the list of questions of a parsed resume starts with a question
  about the two first skill gaps when there are skill gaps.  For the resume text
  "python django flask" and the job text "sql" the skill analysis finds the gap sql, and the
  questions are the question on ramping up and the three behavioural questions.
\<close>

theorem skill_gap_question_missing:
  "map_option
     (\<lambda>rd. let fit = analyze_candidate_fit remdups rd ''sql''
           in (critical_skill_gaps (fit_skill_analysis fit), fit_interview_questions fit))
     (sample_profile ''python django flask'')
   = Some ([''sql''], ramp_up_question # behavioral_questions)"
  unfolding sample_profile_python_django_flask by code_simp

section \<open>The report and the order of sets\<close>

lemma job_skills_set:
  "valid_order so \<Longrightarrow>
     set (extract_skills_with_context_advanced so job)
       = set (extract_skills_with_context_advanced remdups job)"
  by (simp add: extract_skills_with_context_advanced_def valid_order_set)

lemma job_skills_length:
  "valid_order so \<Longrightarrow>
     length (extract_skills_with_context_advanced so job)
       = length (extract_skills_with_context_advanced remdups job)"
  by (simp add: extract_skills_with_context_advanced_def valid_order_length
                length_remdups_card_conv)

lemma job_skills_empty:
  "valid_order so \<Longrightarrow>
     (extract_skills_with_context_advanced so job = [])
       = (extract_skills_with_context_advanced remdups job = [])"
  using job_skills_length[of so job] by (metis length_0_conv)

lemma related_length:
  "set js = set js' \<Longrightarrow>
     length (find_related_skills_advanced cand js) = length (find_related_skills_advanced cand js')"
  by (simp add: find_related_skills_advanced_def length_remdups_card_conv)

text \<open>The part of the skill analysis that the set order cannot change.\<close>

lemma skill_fit_order:
  assumes v: "valid_order so"
  shows "match_percentage (analyze_skill_fit_advanced so sd job)
           = match_percentage (analyze_skill_fit_advanced remdups sd job)"
    and "comprehensive_match_percentage (analyze_skill_fit_advanced so sd job)
           = comprehensive_match_percentage (analyze_skill_fit_advanced remdups sd job)"
    and "set (exact_matches (analyze_skill_fit_advanced so sd job))
           = set (exact_matches (analyze_skill_fit_advanced remdups sd job))"
    and "set (critical_skill_gaps (analyze_skill_fit_advanced so sd job))
           = set (critical_skill_gaps (analyze_skill_fit_advanced remdups sd job))"
    and "length (critical_skill_gaps (analyze_skill_fit_advanced so sd job))
           = length (critical_skill_gaps (analyze_skill_fit_advanced remdups sd job))"
proof -
  let ?J = "extract_skills_with_context_advanced so job"
  let ?K = "extract_skills_with_context_advanced remdups job"
  have s: "set ?J = set ?K" and l: "length ?J = length ?K" and e: "(?J = []) = (?K = [])"
    using v by (rule job_skills_set, rule job_skills_length, rule job_skills_empty)
  have r: "length (find_related_skills_advanced (flatten_skills_advanced sd) ?J)
           = length (find_related_skills_advanced (flatten_skills_advanced sd) ?K)"
    using s by (rule related_length)
  show "match_percentage (analyze_skill_fit_advanced so sd job)
           = match_percentage (analyze_skill_fit_advanced remdups sd job)"
    by (simp add: analyze_skill_fit_advanced_def Let_def s l e)
  show "comprehensive_match_percentage (analyze_skill_fit_advanced so sd job)
           = comprehensive_match_percentage (analyze_skill_fit_advanced remdups sd job)"
    by (simp add: analyze_skill_fit_advanced_def Let_def s l e r)
  show "set (exact_matches (analyze_skill_fit_advanced so sd job))
           = set (exact_matches (analyze_skill_fit_advanced remdups sd job))"
    by (simp add: analyze_skill_fit_advanced_def Let_def s valid_order_set[OF v])
  show "set (critical_skill_gaps (analyze_skill_fit_advanced so sd job))
           = set (critical_skill_gaps (analyze_skill_fit_advanced remdups sd job))"
    by (simp add: analyze_skill_fit_advanced_def Let_def s valid_order_set[OF v])
  show "length (critical_skill_gaps (analyze_skill_fit_advanced so sd job))
           = length (critical_skill_gaps (analyze_skill_fit_advanced remdups sd job))"
    by (simp add: analyze_skill_fit_advanced_def Let_def s valid_order_length[OF v]
                  length_remdups_card_conv)
qed

lemma overall_score_order:
  assumes v: "valid_order so"
  shows "overall_score (analyze_candidate_fit so rd job)
           = overall_score (analyze_candidate_fit remdups rd job)"
  by (simp add: analyze_candidate_fit_def Let_def calculate_comprehensive_score_def
                analyze_cultural_fit_advanced_def skill_fit_order(2)[OF v])

lemma hiring_recommendation_order:
  assumes v: "valid_order so"
  shows "fit_hiring_recommendation (analyze_candidate_fit so rd job)
           = fit_hiring_recommendation (analyze_candidate_fit remdups rd job)"
  using overall_score_order[OF v, of rd job]
  by (simp add: analyze_candidate_fit_def Let_def generate_detailed_recommendation_def
                skill_fit_order(2)[OF v])

lemma strengths_order:
  assumes v: "valid_order so"
  shows "strengths (identify_strengths_weaknesses so rd job)
           = strengths (identify_strengths_weaknesses remdups rd job)"
  by (simp add: identify_strengths_weaknesses_def Let_def skill_fit_order(2)[OF v])

lemma stable_fields_order:
  assumes v: "valid_order so"
  shows "stable_fields (generate_comprehensive_report so job rd)
           = stable_fields (generate_comprehensive_report remdups job rd)"
proof -
  have a: "fit_skill_analysis (analyze_candidate_fit so' rd job)
             = analyze_skill_fit_advanced so' (rd_skills rd) job" for so'
    by (simp add: analyze_candidate_fit_def Let_def)
  have b: "fit_experience_analysis (analyze_candidate_fit so rd job)
             = fit_experience_analysis (analyze_candidate_fit remdups rd job)"
          "fit_qualification_analysis (analyze_candidate_fit so rd job)
             = fit_qualification_analysis (analyze_candidate_fit remdups rd job)"
          "fit_interview_questions (analyze_candidate_fit so rd job)
             = fit_interview_questions (analyze_candidate_fit remdups rd job)"
    by (simp_all add: analyze_candidate_fit_def Let_def)
  have c: "strengths (fit_strengths_weaknesses (analyze_candidate_fit so rd job))
             = strengths (fit_strengths_weaknesses (analyze_candidate_fit remdups rd job))"
    using strengths_order[OF v, of rd job] by (simp add: analyze_candidate_fit_def Let_def)
  show ?thesis
    by (simp add: stable_fields_def generate_comprehensive_report_def Let_def a b c
                  overall_score_order[OF v] hiring_recommendation_order[OF v]
                  skill_fit_order[OF v] generate_comprehensive_recommendation_advanced_def)
qed

text \<open>
  C9, the claim as stated: two invocations of the report generation with the same profile and
  job text give reports equal in every field.  The list of matching skills is
  \<^verbatim>\<open>list(exact_matches)\<close> of a set of strings, listed in the order of the interpreter's hash
  set; under two set orders the same profile and job text give two different lists.
\<close>

theorem report_follows_set_order_counterexample:
  "valid_order remdups \<and> valid_order (\<lambda>xs. rev (remdups xs))
   \<and> map_option
        (\<lambda>rd. matching_skills
                (job_fit_analysis (generate_comprehensive_report remdups ''python django'' rd)))
        (sample_profile ''python django flask'')
      = Some [''python'', ''django'']
   \<and> map_option
        (\<lambda>rd. matching_skills
                (job_fit_analysis
                   (generate_comprehensive_report (\<lambda>xs. rev (remdups xs)) ''python django'' rd)))
        (sample_profile ''python django flask'')
      = Some [''django'', ''python'']"
proof (intro conjI)
  show "valid_order remdups"
    by (rule valid_order_remdups)
  show "valid_order (\<lambda>xs. rev (remdups xs))"
    by (rule valid_order_rev_remdups)
  show "map_option
        (\<lambda>rd. matching_skills
                (job_fit_analysis (generate_comprehensive_report remdups ''python django'' rd)))
        (sample_profile ''python django flask'')
      = Some [''python'', ''django'']"
    unfolding sample_profile_python_django_flask by code_simp
  show "map_option
        (\<lambda>rd. matching_skills
                (job_fit_analysis
                   (generate_comprehensive_report (\<lambda>xs. rev (remdups xs)) ''python django'' rd)))
        (sample_profile ''python django flask'')
      = Some [''django'', ''python'']"
    unfolding sample_profile_python_django_flask by code_simp
qed

text \<open>
  C9, amended: for a fixed profile and job text, the reports under any two set orders agree
  on the compatibility score, the skill, experience and education match, the fit analysis,
  the quality analysis, the interview priority, the recommendation, the interview questions,
  the strengths, the resume code and the lookup text, and their lists of matching and of
  missing skills hold the same skills.
\<close>

theorem report_stable_under_set_order:
  assumes "valid_order so1" and "valid_order so2"
  shows "(let r1 = generate_comprehensive_report so1 job rd;
              r2 = generate_comprehensive_report so2 job rd
          in compatibility_score (job_fit_analysis r1) = compatibility_score (job_fit_analysis r2)
             \<and> skill_match (job_fit_analysis r1) = skill_match (job_fit_analysis r2)
             \<and> experience_match (job_fit_analysis r1) = experience_match (job_fit_analysis r2)
             \<and> education_match (job_fit_analysis r1) = education_match (job_fit_analysis r2)
             \<and> fit_analysis (job_fit_analysis r1) = fit_analysis (job_fit_analysis r2)
             \<and> set (matching_skills (job_fit_analysis r1))
                 = set (matching_skills (job_fit_analysis r2))
             \<and> set (missing_skills (job_fit_analysis r1))
                 = set (missing_skills (job_fit_analysis r2))
             \<and> rep_quality_analysis r1 = rep_quality_analysis r2
             \<and> interview_priority r1 = interview_priority r2
             \<and> recommendation r1 = recommendation r2
             \<and> interview_questions r1 = interview_questions r2
             \<and> strengths (rep_strengths_weaknesses r1) = strengths (rep_strengths_weaknesses r2)
             \<and> rep_resume_code r1 = rep_resume_code r2
             \<and> confidential_lookup r1 = confidential_lookup r2)"
proof -
  have "stable_fields (generate_comprehensive_report so1 job rd)
          = stable_fields (generate_comprehensive_report so2 job rd)"
    using stable_fields_order[OF assms(1)] stable_fields_order[OF assms(2)] by simp
  then show ?thesis
    by (simp add: stable_fields_def Let_def)
qed

theorem report_stable_under_set_order_witness:
  "valid_order remdups \<and> valid_order (\<lambda>xs. rev (remdups xs))
   \<and> (case sample_profile ''python django flask'' of
        None \<Rightarrow> False
      | Some rd \<Rightarrow>
          (let r1 = generate_comprehensive_report remdups ''python django'' rd;
               r2 = generate_comprehensive_report (\<lambda>xs. rev (remdups xs)) ''python django'' rd
           in compatibility_score (job_fit_analysis r1) = compatibility_score (job_fit_analysis r2)
              \<and> skill_match (job_fit_analysis r1) = skill_match (job_fit_analysis r2)
              \<and> experience_match (job_fit_analysis r1) = experience_match (job_fit_analysis r2)
              \<and> education_match (job_fit_analysis r1) = education_match (job_fit_analysis r2)
              \<and> fit_analysis (job_fit_analysis r1) = fit_analysis (job_fit_analysis r2)
              \<and> set (matching_skills (job_fit_analysis r1))
                  = set (matching_skills (job_fit_analysis r2))
              \<and> set (missing_skills (job_fit_analysis r1))
                  = set (missing_skills (job_fit_analysis r2))
              \<and> rep_quality_analysis r1 = rep_quality_analysis r2
              \<and> interview_priority r1 = interview_priority r2
              \<and> recommendation r1 = recommendation r2
              \<and> interview_questions r1 = interview_questions r2
              \<and> strengths (rep_strengths_weaknesses r1) = strengths (rep_strengths_weaknesses r2)
              \<and> rep_resume_code r1 = rep_resume_code r2
              \<and> confidential_lookup r1 = confidential_lookup r2))"
proof -
  obtain rd where p: "sample_profile ''python django flask'' = Some rd"
    using sample_profile_python_django_flask by blast
  show ?thesis
    unfolding p
    using valid_order_remdups valid_order_rev_remdups
          report_stable_under_set_order[OF valid_order_remdups valid_order_rev_remdups,
                                        of "''python django''" rd]
    by simp
qed

end
